theory Spec2Isabelle
  imports Main "HOL-Library.Char_ord" "HOL-Library.List_Lexorder"
begin

section \<open>Image references (internal/types/image.go)\<close>

text \<open>
  Go strings are byte sequences; \<open>len\<close> counts bytes and \<open>s[:n]\<close> panics when
  \<open>n > len(s)\<close>. A run-time panic or fatal error is a value of type \<open>panic\<close>.
\<close>

datatype panic = SliceOutOfRange | NilDereference | UnlockOfUnlocked | Deadlock

record ImageReference =
  ID :: string
  RepoDigest :: string
  Tag :: string
  Original :: string
  Platform :: string

definition slice_to :: "string \<Rightarrow> nat \<Rightarrow> panic + string" where
  "slice_to s n = (if n \<le> length s then Inr (take n s) else Inl SliceOutOfRange)"

text \<open>\<open>fmt.Sprintf("%s (%s)", a, b)\<close>; the arguments are evaluated before the call.\<close>

definition sprintf_paren :: "string \<Rightarrow> string \<Rightarrow> string" where
  "sprintf_paren a b = a @ '' ('' @ b @ '')''"

definition String :: "ImageReference \<Rightarrow> panic + string" where
  "String ir =
     (if RepoDigest ir \<noteq> [] then
        (case slice_to (ID ir) 12 of
           Inl p \<Rightarrow> Inl p
         | Inr short \<Rightarrow> Inr (sprintf_paren (RepoDigest ir) short))
      else if Tag ir \<noteq> [] then
        (case slice_to (ID ir) 12 of
           Inl p \<Rightarrow> Inl p
         | Inr short \<Rightarrow> Inr (sprintf_paren (Tag ir) short))
      else slice_to (ID ir) 12)"

definition BestReference :: "ImageReference \<Rightarrow> string" where
  "BestReference ir =
     (if RepoDigest ir \<noteq> [] then RepoDigest ir
      else if Tag ir \<noteq> [] then Tag ir
      else ID ir)"

definition IsExactReference :: "ImageReference \<Rightarrow> bool" where
  "IsExactReference ir = (RepoDigest ir \<noteq> [] \<or> ID ir \<noteq> [])"

section \<open>Durations and the readiness timeout (pkg/utils/utils.go)\<close>

text \<open>
  A \<open>time.Duration\<close> is a signed 64-bit count of nanoseconds. \<open>ParseDuration\<close>
  follows the Go standard library's \<open>time.ParseDuration\<close>: an optional sign, then one
  or more terms, each a decimal number with an optional fraction and a unit suffix; every
  intermediate value is checked against \<open>1 << 63\<close>, and the running total is a \<open>uint64\<close>. The fractional part of a term is
  computed here in exact arithmetic, where the library goes through \<open>float64\<close>.
\<close>

type_synonym Duration = int

definition Nanosecond :: Duration where "Nanosecond = 1"
definition Microsecond :: Duration where "Microsecond = 1000 * Nanosecond"
definition Millisecond :: Duration where "Millisecond = 1000 * Microsecond"
definition Second :: Duration where "Second = 1000 * Millisecond"
definition Minute :: Duration where "Minute = 60 * Second"
definition Hour :: Duration where "Hour = 60 * Minute"

definition is_digit :: "char \<Rightarrow> bool" where
  "is_digit c = (CHR ''0'' \<le> c \<and> c \<le> CHR ''9'')"

definition digit_val :: "char \<Rightarrow> nat" where
  "digit_val c = of_char c - of_char CHR ''0''"

fun leadingInt :: "nat \<Rightarrow> string \<Rightarrow> (nat \<times> string) option" where
  "leadingInt x [] = Some (x, [])"
| "leadingInt x (c # cs) =
     (if \<not> is_digit c then Some (x, c # cs)
      else if x > 2 ^ 63 div 10 then None
      else if x * 10 + digit_val c > 2 ^ 63 then None
      else leadingInt (x * 10 + digit_val c) cs)"

fun leadingFraction :: "nat \<Rightarrow> nat \<Rightarrow> bool \<Rightarrow> string \<Rightarrow> nat \<times> nat \<times> string" where
  "leadingFraction x scale overflow [] = (x, scale, [])"
| "leadingFraction x scale overflow (c # cs) =
     (if \<not> is_digit c then (x, scale, c # cs)
      else if overflow then leadingFraction x scale overflow cs
      else if x > (2 ^ 63 - 1) div 10 then leadingFraction x scale True cs
      else if x * 10 + digit_val c > 2 ^ 63 then leadingFraction x scale True cs
      else leadingFraction (x * 10 + digit_val c) (scale * 10) overflow cs)"

definition unitMap :: "string \<Rightarrow> nat option" where
  "unitMap u =
     (if u = ''ns'' then Some 1
      else if u = ''us'' then Some 1000
      else if u = [CHR 0xC2, CHR 0xB5, CHR ''s''] then Some 1000
      else if u = [CHR 0xCE, CHR 0xBC, CHR ''s''] then Some 1000
      else if u = ''ms'' then Some 1000000
      else if u = ''s'' then Some 1000000000
      else if u = ''m'' then Some 60000000000
      else if u = ''h'' then Some 3600000000000
      else None)"

definition unit_char :: "char \<Rightarrow> bool" where
  "unit_char c = (\<not> (c = CHR ''.'' \<or> is_digit c))"

lemma leadingInt_length: "leadingInt x s = Some (v, r) \<Longrightarrow> length r \<le> length s"
  by (induction x s rule: leadingInt.induct) (auto split: if_splits)

lemma leadingFraction_length: "leadingFraction x sc ov s = (f, sc', r) \<Longrightarrow> length r \<le> length s"
  by (induction x sc ov s rule: leadingFraction.induct) (auto split: if_splits)

definition parse_term :: "string \<Rightarrow> (nat \<times> string) option" where
  "parse_term s =
     (if \<not> (hd s = CHR ''.'' \<or> is_digit (hd s)) then None
      else
        (case leadingInt 0 s of
           None \<Rightarrow> None
         | Some (v, s1) \<Rightarrow>
             (case (if s1 \<noteq> [] \<and> hd s1 = CHR ''.''
                    then (case leadingFraction 0 1 False (tl s1) of
                            (f, scale, r) \<Rightarrow> (f, scale, r, length (tl s1) \<noteq> length r))
                    else (0, 1, s1, False)) of
                (f, scale, s2, post) \<Rightarrow>
                  if length s = length s1 \<and> \<not> post then None
                  else if takeWhile unit_char s2 = [] then None
                  else
                    (case unitMap (takeWhile unit_char s2) of
                       None \<Rightarrow> None
                     | Some unit \<Rightarrow>
                         if v > 2 ^ 63 div unit then None
                         else if f > 0 \<and> v * unit + (f * unit) div scale > 2 ^ 63 then None
                         else Some (if f > 0 then v * unit + (f * unit) div scale else v * unit,
                                    dropWhile unit_char s2)))))"

lemma parse_term_length: "parse_term s = Some (v, r) \<Longrightarrow> length r < length s"
proof -
  assume a: "parse_term s = Some (v, r)"
  have dw: "\<And>xs. takeWhile unit_char xs \<noteq> [] \<Longrightarrow> length (dropWhile unit_char xs) < length xs"
    by (metis length_append length_greater_0_conv less_add_same_cancel2 takeWhile_dropWhile_id)
  from a show ?thesis
    unfolding parse_term_def
    by (auto split: if_splits option.splits prod.splits
          dest!: leadingInt_length leadingFraction_length dw)
qed

function parse_terms :: "nat \<Rightarrow> string \<Rightarrow> nat option" where
  "parse_terms d s =
     (if s = [] then Some d
      else
        (case parse_term s of
           None \<Rightarrow> None
         | Some (v, r) \<Rightarrow>
             if (d + v) mod 2 ^ 64 > 2 ^ 63 then None
             else parse_terms ((d + v) mod 2 ^ 64) r))"
  by pat_completeness auto
termination
  by (relation "measure (\<lambda>(d, s). length s)") (auto dest: parse_term_length)

definition ParseDuration :: "string \<Rightarrow> Duration option" where
  "ParseDuration orig =
     (let neg = (orig \<noteq> [] \<and> hd orig = CHR ''-'');
          s = (if orig \<noteq> [] \<and> (hd orig = CHR ''-'' \<or> hd orig = CHR ''+'') then tl orig else orig)
      in if s = ''0'' then Some 0
         else if s = [] then None
         else
           (case parse_terms 0 s of
              None \<Rightarrow> None
            | Some d \<Rightarrow>
                if neg then Some (- int d)
                else if d > 2 ^ 63 - 1 then None
                else Some (int d)))"

definition GetTimeout :: "(string \<rightharpoonup> string) \<Rightarrow> Duration \<Rightarrow> Duration" where
  "GetTimeout labels defaultTimeout =
     (case labels ''zockimate.timeout'' of
        Some timeout \<Rightarrow>
          (case ParseDuration timeout of
             Some d \<Rightarrow> if d > 0 \<and> d \<le> 24 * Hour then d else defaultTimeout
           | None \<Rightarrow> defaultTimeout)
      | None \<Rightarrow> defaultTimeout)"

section \<open>The environment: engine, store, dataset tool, clock\<close>

text \<open>
  An error value carries its message; \<open>NotFound\<close> marks the errors for which the
  engine client's \<open>IsErrNotFound\<close> holds. Wrapping with \<open>%w\<close> keeps the mark,
  formatting with \<open>%v\<close> or \<open>%s\<close> makes a plain error.
\<close>

datatype error = Plain string | NotFound string

fun Error :: "error \<Rightarrow> string" where
  "Error (Plain m) = m"
| "Error (NotFound m) = m"

fun IsErrNotFound :: "error \<Rightarrow> bool" where
  "IsErrNotFound (Plain m) = False"
| "IsErrNotFound (NotFound m) = True"

fun Errorf :: "string \<Rightarrow> error \<Rightarrow> error" where
  "Errorf prefix (Plain m) = Plain (prefix @ m)"
| "Errorf prefix (NotFound m) = NotFound (prefix @ m)"

text \<open>
  A \<open>time.Time\<close> is a count of nanoseconds since the zero time. Formatting and parsing
  of calendar dates belong to the environment.
\<close>

type_synonym Time = int

definition IsZero :: "Time \<Rightarrow> bool" where
  "IsZero t = (t = 0)"

datatype layout = RFC3339 | DateOnly | DateTime | Compact

text \<open>
  A serialized configuration is either the JSON of a value or bytes that do not decode;
  the encoding itself is not modelled.
\<close>

datatype 'a json = Json 'a | Malformed string

definition Marshal :: "'a \<Rightarrow> 'a json" where
  "Marshal x = Json x"

definition Unmarshal :: "'a json \<Rightarrow> error + 'a" where
  "Unmarshal b = (case b of Json x \<Rightarrow> Inr x | Malformed e \<Rightarrow> Inl (Plain e))"

record Config =
  cfg_Image :: string
  cfg_Labels :: "string \<rightharpoonup> string"
  cfg_Rest :: string

type_synonym HostConfig = string
type_synonym NetworkingConfig = string

record Health =
  Status :: string

record ContainerJSON =
  ctn_Image :: string
  ctn_Config :: Config
  ctn_HostConfig :: HostConfig
  ctn_Networks :: NetworkingConfig
  ctn_Running :: bool
  ctn_Health :: "Health option"

record ImageInspect =
  ii_ID :: string
  ii_RepoDigests :: "string list"
  ii_RepoTags :: "string list"
  ii_Architecture :: string
  ii_Os :: string

record row =
  row_id :: int
  container_name :: string
  image_id :: string
  image_digest :: string
  image_tag :: string
  original_image :: string
  row_config :: "Config json"
  host_config :: "HostConfig json"
  network_config :: "NetworkingConfig json"
  zfs_snapshot :: "string option"
  status :: string
  message :: string
  created_at :: string

datatype subsystem = Engine | Store | Zfs | Apprise

datatype event =
    ZfsCmd "string list"
  | Warn string
  | LogError string
  | Pulled string
  | ImageRemoved string
  | Stopped string
  | Removed string
  | Created string Config HostConfig NetworkingConfig
  | Started string
  | Notify string string

text \<open>
  The world outside the process. Every call that leaves the process first asks
  \<open>fault\<close> whether the environment makes it fail: \<open>faults w s n\<close> says so for the
  \<open>n\<close>-th call to subsystem \<open>s\<close>. \<open>tick w n\<close> is what the clock shows at its
  \<open>n\<close>-th reading. \<open>cursors\<close> counts the result sets that the process holds open on the store, each
  on a connection of its own. \<open>registry\<close> is what a pull of a reference delivers, \<open>boots\<close>
  the state a started container settles in. \<open>lock\<close> is the manager's mutex, and
  \<open>events\<close> records the commands sent out and the log lines that matter.
\<close>

record world =
  containers :: "string \<rightharpoonup> ContainerJSON"
  images :: "string \<rightharpoonup> ImageInspect"
  registry :: "string \<rightharpoonup> ImageInspect"
  boots :: "Config \<Rightarrow> bool \<times> Health option"
  rows :: "row list"
  next_id :: int
  cursors :: nat
  datasets :: "string list"
  lock :: bool
  calls :: "subsystem \<Rightarrow> nat"
  faults :: "subsystem \<Rightarrow> nat \<Rightarrow> bool"
  clock_reads :: nat
  tick :: "nat \<Rightarrow> Time"
  Format :: "layout \<Rightarrow> Time \<Rightarrow> string"
  ParseTime :: "string \<Rightarrow> Time option"
  events :: "event list"

definition fault :: "subsystem \<Rightarrow> world \<Rightarrow> bool \<times> world" where
  "fault sub w = (faults w sub (calls w sub), w\<lparr>calls := (calls w)(sub := Suc (calls w sub))\<rparr>)"

definition Now :: "world \<Rightarrow> Time \<times> world" where
  "Now w = (tick w (clock_reads w), w\<lparr>clock_reads := Suc (clock_reads w)\<rparr>)"

definition emit :: "event \<Rightarrow> world \<Rightarrow> world" where
  "emit e w = w\<lparr>events := events w @ [e]\<rparr>"

text \<open>\<open>fmt.Sprintf("%d", n)\<close>\<close>

function decimal :: "nat \<Rightarrow> string" where
  "decimal n = (if n < 10 then [''0123456789'' ! n] else decimal (n div 10) @ [''0123456789'' ! (n mod 10)])"
  by pat_completeness auto
termination
  by (relation "measure id") auto

declare decimal.simps [simp del]

definition fmt_d :: "int \<Rightarrow> string" where
  "fmt_d i = (if i < 0 then CHR ''-'' # decimal (nat (- i)) else decimal (nat i))"

section \<open>The dataset snapshotter (internal/storage/zfs/zfs.go)\<close>

text \<open>
  One invocation of the \<open>zfs\<close> tool. It exits non-zero when the environment makes it
  fail, and also when it is asked to create a snapshot that exists or to roll back or
  destroy one that does not. \<open>rollback -r\<close> discards the later snapshots of the same
  dataset.
\<close>

definition dataset_of :: "string \<Rightarrow> string" where
  "dataset_of handle = takeWhile (\<lambda>c. c \<noteq> CHR ''@'') handle"

fun later_of_same :: "string \<Rightarrow> string list \<Rightarrow> string list" where
  "later_of_same h [] = []"
| "later_of_same h (x # xs) =
     (if x = h then x # filter (\<lambda>y. dataset_of y \<noteq> dataset_of h) xs
      else x # later_of_same h xs)"

definition zfs_run :: "string list \<Rightarrow> world \<Rightarrow> error option \<times> world" where
  "zfs_run argv w =
     (case fault Zfs (emit (ZfsCmd argv) w) of
        (bad, w1) \<Rightarrow>
          if bad then (Some (Plain ''exit status 1''), w1)
          else
            (case argv of
               [verb, h] \<Rightarrow>
                 if verb = ''snapshot'' then
                   (if h \<in> set (datasets w1) then (Some (Plain ''exit status 1''), w1)
                    else (None, w1\<lparr>datasets := datasets w1 @ [h]\<rparr>))
                 else if verb = ''destroy'' then
                   (if h \<in> set (datasets w1)
                    then (None, w1\<lparr>datasets := removeAll h (datasets w1)\<rparr>)
                    else (Some (Plain ''exit status 1''), w1))
                 else (Some (Plain ''exit status 2''), w1)
             | [verb, flag, h] \<Rightarrow>
                 if verb = ''rollback'' \<and> flag = ''-r'' then
                   (if h \<in> set (datasets w1)
                    then (None, w1\<lparr>datasets := later_of_same h (datasets w1)\<rparr>)
                    else (Some (Plain ''exit status 1''), w1))
                 else (Some (Plain ''exit status 2''), w1)
             | _ \<Rightarrow> (Some (Plain ''exit status 2''), w1)))"

definition zfs_CreateSnapshot :: "string \<Rightarrow> world \<Rightarrow> (error + string) \<times> world" where
  "zfs_CreateSnapshot dataset w =
     (case Now w of
        (t, w1) \<Rightarrow>
          (let snapshotName = dataset @ ''@snapshot_'' @ Format w1 Compact t
           in case zfs_run [''snapshot'', snapshotName] w1 of
                (Some err, w2) \<Rightarrow> (Inl (Errorf ''failed to create ZFS snapshot: '' err), w2)
              | (None, w2) \<Rightarrow> (Inr snapshotName, w2)))"

definition zfs_RollbackSnapshot :: "string \<Rightarrow> world \<Rightarrow> error option \<times> world" where
  "zfs_RollbackSnapshot snapshot w =
     (case zfs_run [''rollback'', ''-r'', snapshot] w of
        (Some err, w1) \<Rightarrow> (Some (Errorf ''failed to rollback ZFS snapshot: '' err), w1)
      | (None, w1) \<Rightarrow> (None, w1))"

definition zfs_DeleteSnapshot :: "string \<Rightarrow> world \<Rightarrow> error option \<times> world" where
  "zfs_DeleteSnapshot snapshot w =
     (case zfs_run [''destroy'', snapshot] w of
        (Some err, w1) \<Rightarrow> (Some (Errorf ''failed to delete ZFS snapshot: '' err), w1)
      | (None, w1) \<Rightarrow> (None, w1))"

section \<open>The snapshot store (internal/storage/database/database.go)\<close>

subsection \<open>Statements with a fixed text\<close>

text \<open>
  The store is opened with \<open>sql.Open("sqlite3", dbPath)\<close> and nothing else: a pool of
  connections to a database in its default journal mode. A result set that is still open
  keeps its connection and the read lock of its statement, so a write, which goes out on
  another connection of the pool, is refused as \<open>database is locked\<close> for as long as one
  is open.
\<close>

definition write_refused :: "world \<Rightarrow> bool" where
  "write_refused w = (cursors w > 0)"

text \<open>
  \<open>SELECT id, zfs_snapshot FROM container_snapshots WHERE container_name = ?
  ORDER BY created_at DESC LIMIT -1 OFFSET ?\<close>. Text columns compare bytewise; a negative
  offset counts as zero. The query leaves its result set open.
\<close>

definition newest_first :: "row list \<Rightarrow> row list" where
  "newest_first rs = rev (sort_key created_at rs)"

definition select_past_offset :: "string \<Rightarrow> int \<Rightarrow> world \<Rightarrow> (error + (int \<times> string option) list) \<times> world" where
  "select_past_offset containerName retain w =
     (case fault Store w of
        (bad, w1) \<Rightarrow>
          if bad then (Inl (Plain ''database is locked''), w1)
          else (Inr (map (\<lambda>r. (row_id r, zfs_snapshot r))
                       (drop (nat retain)
                          (newest_first (filter (\<lambda>r. container_name r = containerName) (rows w1))))),
                w1\<lparr>cursors := Suc (cursors w1)\<rparr>))"

text \<open>\<open>rows.Close()\<close>, also what \<open>rows.Next()\<close> does when it finds no further row.\<close>

definition close_cursor :: "world \<Rightarrow> world" where
  "close_cursor w = w\<lparr>cursors := cursors w - 1\<rparr>"

text \<open>\<open>DELETE FROM container_snapshots WHERE id = ?\<close>, a write.\<close>

definition delete_by_id :: "int \<Rightarrow> world \<Rightarrow> error option \<times> world" where
  "delete_by_id i w =
     (case fault Store w of
        (bad, w1) \<Rightarrow>
          if bad \<or> write_refused w1 then (Some (Plain ''database is locked''), w1)
          else (None, w1\<lparr>rows := filter (\<lambda>r. row_id r \<noteq> i) (rows w1)\<rparr>))"

text \<open>The body of the row loop: destroy the row's dataset snapshot, warn on failure.\<close>

definition destroy_best_effort :: "string option \<Rightarrow> world \<Rightarrow> world" where
  "destroy_best_effort zfsSnapshot w =
     (case zfsSnapshot of
        Some s \<Rightarrow>
          if s \<noteq> [] then
            (case zfs_DeleteSnapshot s w of
               (Some err, w') \<Rightarrow>
                 emit (Warn (''Failed to delete ZFS snapshot '' @ s @ '': '' @ Error err)) w'
             | (None, w') \<Rightarrow> w')
          else w
      | None \<Rightarrow> w)"

text \<open>
  \<open>for rows.Next() { ... }\<close> over the open result set: every \<open>DELETE\<close> of the loop is
  sent while the result set of the \<open>SELECT\<close> is open. The loop ends when a \<open>DELETE\<close>
  fails or when no row is left.
\<close>

fun cleanup_rows :: "(int \<times> string option) list \<Rightarrow> world \<Rightarrow> error option \<times> world" where
  "cleanup_rows [] w = (None, w)"
| "cleanup_rows ((i, zfsSnapshot) # rest) w =
     (case delete_by_id i (destroy_best_effort zfsSnapshot w) of
        (Some err, w2) \<Rightarrow>
          (Some (Errorf (''failed to delete snapshot '' @ fmt_d i @ '': '') err), w2)
      | (None, w2) \<Rightarrow> cleanup_rows rest w2)"

text \<open>The result set is closed when the function returns, whichever way it does.\<close>

definition CleanupSnapshots :: "string \<Rightarrow> int \<Rightarrow> world \<Rightarrow> error option \<times> world" where
  "CleanupSnapshots containerName retain w =
     (case select_past_offset containerName retain w of
        (Inl err, w1) \<Rightarrow> (Some (Errorf ''failed to query old snapshots: '' err), w1)
      | (Inr old, w1) \<Rightarrow>
          (case cleanup_rows old w1 of
             (res, w2) \<Rightarrow> (res, close_cursor w2)))"

subsection \<open>Statements whose text is assembled at run time\<close>

text \<open>
  \<open>RemoveEntries\<close> concatenates its statements, so the store is given their text. It
  accepts the two statement shapes the program sends, with a \<open>WHERE\<close> clause that is a
  conjunction of the comparisons below and \<open>?\<close> parameters bound in order; any other
  text is a syntax error. The result set of the \<open>SELECT\<close> is read to its end, which
  closes it, before \<open>RemoveEntries\<close> sends anything else.
\<close>

datatype atom = NameEq | CreatedLt

datatype stmt = Delete "atom list" | SelectZfs "atom list"

definition strip_prefix :: "string \<Rightarrow> string \<Rightarrow> string option" where
  "strip_prefix p s = (if take (length p) s = p then Some (drop (length p) s) else None)"

definition strip_atom :: "string \<Rightarrow> (atom \<times> string) option" where
  "strip_atom s =
     (case strip_prefix ''container_name = ?'' s of
        Some r \<Rightarrow> Some (NameEq, r)
      | None \<Rightarrow>
          (case strip_prefix ''created_at < ?'' s of
             Some r \<Rightarrow> Some (CreatedLt, r)
           | None \<Rightarrow> None))"

lemma strip_prefix_length: "strip_prefix p s = Some r \<Longrightarrow> length r = length s - length p \<and> length p \<le> length s"
  by (auto simp: strip_prefix_def split: if_splits) (metis length_take min.cobounded1)

lemma strip_atom_length: "strip_atom s = Some (a, r) \<Longrightarrow> length r < length s"
  by (auto simp: strip_atom_def split: option.splits dest!: strip_prefix_length)

function parse_conds :: "string \<Rightarrow> atom list option" where
  "parse_conds s =
     (case strip_atom s of
        None \<Rightarrow> None
      | Some (a, r) \<Rightarrow>
          if r = [] then Some [a]
          else
            (case strip_prefix '' AND '' r of
               None \<Rightarrow> None
             | Some r' \<Rightarrow> map_option (Cons a) (parse_conds r')))"
  by pat_completeness auto
termination
  by (relation "measure length") (auto dest!: strip_atom_length strip_prefix_length)

declare parse_conds.simps [simp del]

definition parse_stmt :: "string \<Rightarrow> stmt option" where
  "parse_stmt q =
     (case strip_prefix ''DELETE FROM container_snapshots WHERE '' q of
        Some c \<Rightarrow> map_option Delete (parse_conds c)
      | None \<Rightarrow>
          (case strip_prefix ''SELECT zfs_snapshot FROM container_snapshots WHERE '' q of
             Some c \<Rightarrow> map_option SelectZfs (parse_conds c)
           | None \<Rightarrow> None))"

fun matches :: "atom list \<Rightarrow> string list \<Rightarrow> row \<Rightarrow> bool" where
  "matches [] args r = True"
| "matches (a # as) [] r = False"
| "matches (NameEq # as) (v # args) r = (container_name r = v \<and> matches as args r)"
| "matches (CreatedLt # as) (v # args) r = (created_at r < v \<and> matches as args r)"

definition db_Query :: "string \<Rightarrow> string list \<Rightarrow> world \<Rightarrow> (error + string option list) \<times> world" where
  "db_Query q args w =
     (case fault Store w of
        (bad, w1) \<Rightarrow>
          if bad then (Inl (Plain ''database is locked''), w1)
          else
            (case parse_stmt q of
               None \<Rightarrow> (Inl (Plain ''syntax error''), w1)
             | Some (SelectZfs conds) \<Rightarrow>
                 if length conds \<noteq> length args then (Inl (Plain ''wrong number of parameters''), w1)
                 else (Inr (map zfs_snapshot (filter (matches conds args) (rows w1))), w1)
             | Some (Delete conds) \<Rightarrow>
                 if length conds \<noteq> length args then (Inl (Plain ''wrong number of parameters''), w1)
                 else if write_refused w1 then (Inl (Plain ''database is locked''), w1)
                 else (Inr [], w1\<lparr>rows := filter (\<lambda>r. \<not> matches conds args r) (rows w1)\<rparr>)))"

definition db_Exec :: "string \<Rightarrow> string list \<Rightarrow> world \<Rightarrow> (error + int) \<times> world" where
  "db_Exec q args w =
     (case fault Store w of
        (bad, w1) \<Rightarrow>
          if bad then (Inl (Plain ''database is locked''), w1)
          else
            (case parse_stmt q of
               None \<Rightarrow> (Inl (Plain ''syntax error''), w1)
             | Some (SelectZfs conds) \<Rightarrow>
                 if length conds \<noteq> length args then (Inl (Plain ''wrong number of parameters''), w1)
                 else (Inr 0, w1)
             | Some (Delete conds) \<Rightarrow>
                 if length conds \<noteq> length args then (Inl (Plain ''wrong number of parameters''), w1)
                 else if write_refused w1 then (Inl (Plain ''database is locked''), w1)
                 else (Inr (int (length (filter (matches conds args) (rows w1)))),
                       w1\<lparr>rows := filter (\<lambda>r. \<not> matches conds args r) (rows w1)\<rparr>)))"

record RemoveOptions =
  rm_Force :: bool
  rm_WithContainer :: bool
  rm_OlderThan :: Duration
  rm_Before :: Time
  rm_All :: bool
  rm_DryRun :: bool
  rm_Zfs :: bool

fun Join :: "string list \<Rightarrow> string \<Rightarrow> string" where
  "Join [] sep = []"
| "Join [x] sep = x"
| "Join (x # y # ys) sep = x @ sep @ Join (y # ys) sep"

text \<open>Scanning the \<open>zfs_snapshot\<close> column into a \<open>string\<close> fails on \<open>NULL\<close>.\<close>

fun scan_snapshots :: "string option list \<Rightarrow> error + string list" where
  "scan_snapshots [] = Inr []"
| "scan_snapshots (None # rest) = Inl (Plain ''converting NULL to string is unsupported'')"
| "scan_snapshots (Some snapshot # rest) =
     (case scan_snapshots rest of
        Inl err \<Rightarrow> Inl err
      | Inr snapshots \<Rightarrow> Inr (if snapshot \<noteq> [] then snapshot # snapshots else snapshots))"

fun delete_snapshots :: "string list \<Rightarrow> world \<Rightarrow> world" where
  "delete_snapshots [] w = w"
| "delete_snapshots (snapshot # rest) w =
     (case zfs_DeleteSnapshot snapshot w of
        (Some err, w1) \<Rightarrow>
          delete_snapshots rest
            (emit (Warn (''Failed to delete ZFS snapshot '' @ snapshot @ '': '' @ Error err)) w1)
      | (None, w1) \<Rightarrow> delete_snapshots rest w1)"

definition remove_conditions :: "RemoveOptions \<Rightarrow> world \<Rightarrow> (string list \<times> string list) \<times> world" where
  "remove_conditions opts w =
     (if \<not> rm_All opts then
        (case (if \<not> IsZero (rm_Before opts)
               then ([''created_at < ?''], [Format w DateOnly (rm_Before opts)])
               else ([], [])) of
           (conditions, args) \<Rightarrow>
             if rm_OlderThan opts > 0 then
               (case Now w of
                  (t, w1) \<Rightarrow>
                    ((conditions @ [''created_at < ?''],
                      args @ [Format w1 DateOnly (t - rm_OlderThan opts)]), w1))
             else ((conditions, args), w))
      else (([], []), w))"

definition RemoveEntries :: "string \<Rightarrow> RemoveOptions \<Rightarrow> world \<Rightarrow> (error + int) \<times> world" where
  "RemoveEntries containerName opts w =
     (case remove_conditions opts w of
        ((conditions, extra), w0) \<Rightarrow>
          (let args = containerName # extra;
               query = ''DELETE FROM container_snapshots WHERE container_name = ?'' @
                       (if length conditions > 0 then '' AND '' @ Join conditions '' AND '' else [])
           in case (if rm_Zfs opts then
                      (case db_Query (''SELECT zfs_snapshot FROM container_snapshots WHERE '' @ query)
                              args w0 of
                         (Inl err, w1) \<Rightarrow> (Some (Errorf ''failed to query ZFS snapshots: '' err), w1)
                       | (Inr col, w1) \<Rightarrow>
                           (case scan_snapshots col of
                              Inl err \<Rightarrow> (Some (Errorf ''failed to scan snapshot: '' err), w1)
                            | Inr snapshots \<Rightarrow> (None, delete_snapshots snapshots w1)))
                    else (None, w0)) of
                (Some err, w2) \<Rightarrow> (Inl err, w2)
              | (None, w2) \<Rightarrow>
                  (case db_Exec query args w2 of
                     (Inl err, w3) \<Rightarrow> (Inl (Errorf ''failed to delete entries: '' err), w3)
                   | (Inr affected, w3) \<Rightarrow> (Inr affected, w3))))"

subsection \<open>Snapshot records (internal/types/snapshot.go) and their rows\<close>

record ContainerSnapshot =
  cs_ID :: int
  cs_ContainerName :: string
  cs_ImageRef :: ImageReference
  cs_Config :: "Config json"
  cs_HostConfig :: "HostConfig json"
  cs_NetworkConfig :: "NetworkingConfig json"
  cs_ZFSSnapshot :: string
  cs_Status :: string
  cs_Message :: string
  cs_CreatedAt :: Time

text \<open>
  The \<open>INSERT\<close> of \<open>SaveSnapshot\<close>, a write. The table has \<open>UNIQUE(container_name, created_at)\<close>
  and an auto-increment key; the new row's id is written back into the snapshot.
\<close>

definition SaveSnapshot :: "ContainerSnapshot \<Rightarrow> world \<Rightarrow> (error option \<times> ContainerSnapshot) \<times> world" where
  "SaveSnapshot snapshot w =
     (case Now w of
        (t, w0) \<Rightarrow>
          (let stamp = Format w0 RFC3339 t in
           case fault Store w0 of
             (bad, w1) \<Rightarrow>
               if bad \<or> write_refused w1 then
                 ((Some (Errorf ''failed to save snapshot: '' (Plain ''database is locked'')), snapshot), w1)
               else if \<exists>r \<in> set (rows w1).
                          container_name r = cs_ContainerName snapshot \<and> created_at r = stamp then
                 ((Some (Errorf ''failed to save snapshot: '' (Plain ''UNIQUE constraint failed'')),
                   snapshot), w1)
               else
                 ((None, snapshot\<lparr>cs_ID := next_id w1\<rparr>),
                  w1\<lparr>rows := rows w1 @
                       [\<lparr>row_id = next_id w1,
                         container_name = cs_ContainerName snapshot,
                         image_id = ID (cs_ImageRef snapshot),
                         image_digest = RepoDigest (cs_ImageRef snapshot),
                         image_tag = Tag (cs_ImageRef snapshot),
                         original_image = Original (cs_ImageRef snapshot),
                         row_config = cs_Config snapshot,
                         host_config = cs_HostConfig snapshot,
                         network_config = cs_NetworkConfig snapshot,
                         zfs_snapshot = Some (cs_ZFSSnapshot snapshot),
                         status = cs_Status snapshot,
                         message = cs_Message snapshot,
                         created_at = stamp\<rparr>],
                     next_id := next_id w1 + 1\<rparr>)))"

definition GetSnapshot :: "string \<Rightarrow> int \<Rightarrow> world \<Rightarrow> (error + ContainerSnapshot) \<times> world" where
  "GetSnapshot containerName i w =
     (case fault Store w of
        (bad, w1) \<Rightarrow>
          if bad then (Inl (Errorf ''failed to query snapshot: '' (Plain ''database is locked'')), w1)
          else
            (case (if i > 0
                   then filter (\<lambda>r. container_name r = containerName \<and> row_id r = i) (rows w1)
                   else take 1 (newest_first (filter (\<lambda>r. container_name r = containerName) (rows w1)))) of
               [] \<Rightarrow> (Inl (Plain ''no snapshot found''), w1)
             | r # _ \<Rightarrow>
                 (case zfs_snapshot r of
                    None \<Rightarrow>
                      (Inl (Errorf ''failed to query snapshot: ''
                              (Plain ''converting NULL to string is unsupported'')), w1)
                  | Some z \<Rightarrow>
                      (case ParseTime w1 (created_at r) of
                         None \<Rightarrow>
                           (Inl (Errorf ''failed to parse created_at: ''
                                   (Plain (''failed to parse time: '' @ created_at r))), w1)
                       | Some t \<Rightarrow>
                           (Inr \<lparr>cs_ID = row_id r,
                                 cs_ContainerName = container_name r,
                                 cs_ImageRef = \<lparr>ID = image_id r, RepoDigest = image_digest r,
                                                Tag = image_tag r, Original = original_image r,
                                                Platform = []\<rparr>,
                                 cs_Config = row_config r,
                                 cs_HostConfig = host_config r,
                                 cs_NetworkConfig = network_config r,
                                 cs_ZFSSnapshot = z,
                                 cs_Status = status r,
                                 cs_Message = message r,
                                 cs_CreatedAt = t\<rparr>, w1)))))"

section \<open>The engine client (internal/docker/client.go)\<close>

text \<open>
  The calls of the engine's API, each one a request that the environment may fail. The
  requests that change the engine are recorded as events when they are sent.
\<close>

definition ContainerInspect :: "string \<Rightarrow> world \<Rightarrow> (error + ContainerJSON) \<times> world" where
  "ContainerInspect name w =
     (case fault Engine w of
        (bad, w1) \<Rightarrow>
          if bad then (Inl (Plain ''cannot connect to the engine''), w1)
          else
            (case containers w1 name of
               None \<Rightarrow> (Inl (NotFound (''No such container: '' @ name)), w1)
             | Some c \<Rightarrow> (Inr c, w1)))"

definition ContainerStop :: "string \<Rightarrow> world \<Rightarrow> error option \<times> world" where
  "ContainerStop name w =
     (case fault Engine (emit (Stopped name) w) of
        (bad, w1) \<Rightarrow>
          if bad then (Some (Plain ''cannot stop container''), w1)
          else
            (case containers w1 name of
               None \<Rightarrow> (Some (NotFound (''No such container: '' @ name)), w1)
             | Some c \<Rightarrow>
                 (None, w1\<lparr>containers := (containers w1)(name \<mapsto> c\<lparr>ctn_Running := False\<rparr>)\<rparr>)))"

definition ContainerRemoveForce :: "string \<Rightarrow> world \<Rightarrow> error option \<times> world" where
  "ContainerRemoveForce name w =
     (case fault Engine (emit (Removed name) w) of
        (bad, w1) \<Rightarrow>
          if bad then (Some (Plain ''cannot remove container''), w1)
          else
            (case containers w1 name of
               None \<Rightarrow> (Some (NotFound (''No such container: '' @ name)), w1)
             | Some c \<Rightarrow> (None, w1\<lparr>containers := (containers w1)(name := None)\<rparr>)))"

definition ContainerCreate ::
  "Config \<Rightarrow> HostConfig \<Rightarrow> NetworkingConfig \<Rightarrow> string \<Rightarrow> world \<Rightarrow> error option \<times> world" where
  "ContainerCreate config hostConfig networkConfig name w =
     (case fault Engine (emit (Created name config hostConfig networkConfig) w) of
        (bad, w1) \<Rightarrow>
          if bad then (Some (Plain ''cannot create container''), w1)
          else if containers w1 name \<noteq> None then
            (Some (Plain (''Conflict. The container name is already in use: '' @ name)), w1)
          else
            (case images w1 (cfg_Image config) of
               None \<Rightarrow> (Some (NotFound (''No such image: '' @ cfg_Image config)), w1)
             | Some img \<Rightarrow>
                 (None, w1\<lparr>containers := (containers w1)(name \<mapsto>
                     \<lparr>ctn_Image = ii_ID img, ctn_Config = config, ctn_HostConfig = hostConfig,
                      ctn_Networks = networkConfig, ctn_Running = False, ctn_Health = None\<rparr>)\<rparr>)))"

definition ContainerStart :: "string \<Rightarrow> world \<Rightarrow> error option \<times> world" where
  "ContainerStart name w =
     (case fault Engine (emit (Started name) w) of
        (bad, w1) \<Rightarrow>
          if bad then (Some (Plain ''cannot start container''), w1)
          else
            (case containers w1 name of
               None \<Rightarrow> (Some (NotFound (''No such container: '' @ name)), w1)
             | Some c \<Rightarrow>
                 (None, w1\<lparr>containers := (containers w1)(name \<mapsto>
                     c\<lparr>ctn_Running := fst (boots w1 (ctn_Config c)),
                       ctn_Health := snd (boots w1 (ctn_Config c))\<rparr>)\<rparr>)))"

text \<open>The wrappers of the client, as the manager calls them.\<close>

definition PullImage :: "string \<Rightarrow> world \<Rightarrow> error option \<times> world" where
  "PullImage ref w =
     (case fault Engine (emit (Pulled ref) w) of
        (bad, w1) \<Rightarrow>
          if bad then (Some (Errorf ''pull failed: '' (Plain ''cannot connect to the engine'')), w1)
          else
            (case registry w1 ref of
               None \<Rightarrow> (Some (Errorf ''pull failed: '' (NotFound (''pull access denied for '' @ ref))), w1)
             | Some img \<Rightarrow>
                 (case fault Engine w1 of
                    (broken, w2) \<Rightarrow>
                      if broken then
                        (Some (Errorf ''error reading pull response: '' (Plain ''unexpected EOF'')), w2)
                      else
                        (None, w2\<lparr>images := (images w2)(ref \<mapsto> img, ii_ID img \<mapsto> img)\<rparr>))))"

definition GetImageInfo :: "string \<Rightarrow> world \<Rightarrow> (error + ImageReference) \<times> world" where
  "GetImageInfo ref w =
     (case fault Engine w of
        (bad, w1) \<Rightarrow>
          if bad then (Inl (Errorf ''failed to inspect image: '' (Plain ''cannot connect to the engine'')), w1)
          else
            (case images w1 ref of
               None \<Rightarrow> (Inl (Errorf ''failed to inspect image: '' (NotFound (''No such image: '' @ ref))), w1)
             | Some inspect \<Rightarrow>
                 (Inr \<lparr>ID = ii_ID inspect,
                       RepoDigest = (if length (ii_RepoDigests inspect) > 0
                                     then hd (ii_RepoDigests inspect) else []),
                       Tag = (if length (ii_RepoTags inspect) > 0
                              then hd (ii_RepoTags inspect) else []),
                       Original = [],
                       Platform = ii_Architecture inspect @ ''/'' @ ii_Os inspect\<rparr>, w1)))"

definition RecreateContainer ::
  "string \<Rightarrow> Config \<Rightarrow> HostConfig \<Rightarrow> NetworkingConfig \<Rightarrow> world \<Rightarrow> error option \<times> world" where
  "RecreateContainer name config hostConfig networkConfig w =
     (case (case ContainerInspect name w of
              (Inl err, w1) \<Rightarrow> (None, w1)
            | (Inr c, w1) \<Rightarrow>
                (case ContainerStop name w1 of
                   (Some err, w2) \<Rightarrow> (Some (Errorf ''failed to stop container: '' err), w2)
                 | (None, w2) \<Rightarrow>
                     (case ContainerRemoveForce name w2 of
                        (Some err, w3) \<Rightarrow> (Some (Errorf ''failed to remove container: '' err), w3)
                      | (None, w3) \<Rightarrow> (None, w3)))) of
        (Some err, w4) \<Rightarrow> (Some err, w4)
      | (None, w4) \<Rightarrow>
          (case ContainerCreate config hostConfig networkConfig name w4 of
             (Some err, w5) \<Rightarrow> (Some (Errorf ''failed to create container: '' err), w5)
           | (None, w5) \<Rightarrow>
               (case ContainerStart name w5 of
                  (Some err, w6) \<Rightarrow> (Some (Errorf ''failed to start container: '' err), w6)
                | (None, w6) \<Rightarrow> (None, w6))))"

text \<open>
  \<open>WaitForContainer\<close> polls once per tick of a one-second ticker until the timeout
  expires: \<open>ticks\<close> is the number of ticks left.
\<close>

fun wait_loop :: "nat \<Rightarrow> string \<Rightarrow> world \<Rightarrow> error option \<times> world" where
  "wait_loop 0 name w = (Some (Plain ''timeout waiting for container to be ready''), w)"
| "wait_loop (Suc ticks) name w =
     (case ContainerInspect name w of
        (Inl err, w1) \<Rightarrow> (Some err, w1)
      | (Inr c, w1) \<Rightarrow>
          (case ctn_Health c of
             Some h \<Rightarrow> if Status h = ''healthy'' then (None, w1) else wait_loop ticks name w1
           | None \<Rightarrow> if ctn_Running c then (None, w1) else wait_loop ticks name w1))"

definition WaitForContainer :: "string \<Rightarrow> Duration \<Rightarrow> world \<Rightarrow> error option \<times> world" where
  "WaitForContainer name timeout w = wait_loop (nat (timeout div Second)) name w"

definition InspectContainer :: "string \<Rightarrow> world \<Rightarrow> (error + ContainerJSON) \<times> world" where
  "InspectContainer name w =
     (case ContainerInspect name w of
        (Inl err, w1) \<Rightarrow>
          if IsErrNotFound err then (Inl (Plain (''container not found: '' @ name)), w1)
          else (Inl (Errorf ''failed to inspect container: '' err), w1)
      | (Inr ctn, w1) \<Rightarrow> (Inr ctn, w1))"

text \<open>Each of the three \<open>json.Marshal\<close> calls may fail.\<close>

definition GetContainerConfigs ::
  "ContainerJSON \<Rightarrow> world \<Rightarrow>
     (error + Config json \<times> HostConfig json \<times> NetworkingConfig json) \<times> world" where
  "GetContainerConfigs ctn w =
     (case fault Engine w of
        (bad1, w1) \<Rightarrow>
          if bad1 then
            (Inl (Errorf ''failed to marshal container config: '' (Plain ''unsupported value'')), w1)
          else
            (case fault Engine w1 of
               (bad2, w2) \<Rightarrow>
                 if bad2 then
                   (Inl (Errorf ''failed to marshal host config: '' (Plain ''unsupported value'')), w2)
                 else
                   (case fault Engine w2 of
                      (bad3, w3) \<Rightarrow>
                        if bad3 then
                          (Inl (Errorf ''failed to marshal network config: ''
                                  (Plain ''unsupported value'')), w3)
                        else
                          (Inr (Marshal (ctn_Config ctn), Marshal (ctn_HostConfig ctn),
                                Marshal (ctn_Networks ctn)), w3))))"

definition RemoveImage :: "string \<Rightarrow> world \<Rightarrow> error option \<times> world" where
  "RemoveImage imageID w =
     (case fault Engine (emit (ImageRemoved imageID) w) of
        (bad, w1) \<Rightarrow>
          if bad then (Some (Errorf ''failed to remove image: '' (Plain ''image is in use'')), w1)
          else
            (None, w1\<lparr>images := (\<lambda>ref. case images w1 ref of
                                          None \<Rightarrow> None
                                        | Some img \<Rightarrow> if ii_ID img = imageID then None else Some img)\<rparr>))"

section \<open>The container manager (internal/manager)\<close>

text \<open>
  The manager's configuration, and whether a notification client is set
  (\<open>cm.notify != nil\<close>).
\<close>

record manager =
  mc_NoFilter :: bool
  mc_All :: bool
  mc_Retention :: int
  mc_notify :: bool

text \<open>
  A call either returns, or the process dies of a panic or of a fatal run-time error;
  \<open>Fatal\<close> keeps the world the process leaves behind.
\<close>

datatype 'a run = Fatal panic world | Ret 'a world

text \<open>
  The manager's mutex is only ever taken for writing by the one goroutine that runs the
  commands. Locking it while it is held blocks that goroutine for good; unlocking it
  while it is free is the run-time's fatal error \<open>Unlock of unlocked RWMutex\<close>.
\<close>

definition Lock :: "world \<Rightarrow> unit run" where
  "Lock w = (if lock w then Fatal Deadlock w else Ret () (w\<lparr>lock := True\<rparr>))"

definition Unlock :: "world \<Rightarrow> unit run" where
  "Unlock w = (if lock w then Ret () (w\<lparr>lock := False\<rparr>) else Fatal UnlockOfUnlocked w)"

text \<open>\<open>cm.lock.Lock(); defer cm.lock.Unlock()\<close> around a whole function body.\<close>

definition locked :: "(world \<Rightarrow> 'a run) \<Rightarrow> world \<Rightarrow> 'a run" where
  "locked body w =
     (case Lock w of
        Fatal p w1 \<Rightarrow> Fatal p w1
      | Ret u w1 \<Rightarrow>
          (case body w1 of
             Fatal p w2 \<Rightarrow> Fatal p w2
           | Ret r w2 \<Rightarrow>
               (case Unlock w2 of
                  Fatal p w3 \<Rightarrow> Fatal p w3
                | Ret u' w3 \<Rightarrow> Ret r w3)))"

definition CleanContainerName :: "string \<Rightarrow> string" where
  "CleanContainerName name = (if name \<noteq> [] \<and> hd name = CHR ''/'' then tl name else name)"

definition IsContainerEnabled :: "(string \<rightharpoonup> string) \<Rightarrow> bool" where
  "IsContainerEnabled labels = (labels ''zockimate.enable'' = Some ''true'')"

definition GetZFSDataset :: "(string \<rightharpoonup> string) \<Rightarrow> string" where
  "GetZFSDataset labels = (case labels ''zockimate.zfs_dataset'' of Some d \<Rightarrow> d | None \<Rightarrow> [])"

definition notifyf :: "manager \<Rightarrow> string \<Rightarrow> string \<Rightarrow> world \<Rightarrow> world" where
  "notifyf cm title msg w =
     (if mc_notify cm then
        (case fault Apprise (emit (Notify title msg) w) of
           (bad, w1) \<Rightarrow>
             if bad then emit (Warn ''Failed to send notification: unexpected status'') w1
             else w1)
      else w)"

subsection \<open>CheckContainer (check.go)\<close>

record CheckOptions =
  co_Force :: bool
  co_Cleanup :: bool
  co_Timeout :: Duration
  co_Notify :: bool

record CheckResult =
  cr_NeedsUpdate :: bool
  cr_CurrentImage :: "ImageReference option"
  cr_UpdateImage :: "ImageReference option"
  cr_Error :: "error option"

definition architecture_mismatch :: "ImageReference \<Rightarrow> ImageReference \<Rightarrow> error" where
  "architecture_mismatch currentImage latestImage =
     Plain (''architecture mismatch: current='' @ Platform currentImage @
            '', latest='' @ Platform latestImage)"

text \<open>The comparison of the two images; \<open>Inl\<close> is the early return of the inner check.\<close>

definition compare_images :: "ImageReference \<Rightarrow> ImageReference \<Rightarrow> error + bool" where
  "compare_images currentImage latestImage =
     (if IsExactReference currentImage \<and> IsExactReference latestImage then
        (if Platform currentImage \<noteq> Platform latestImage
         then Inl (architecture_mismatch currentImage latestImage)
         else if RepoDigest currentImage \<noteq> [] \<and> RepoDigest latestImage \<noteq> []
         then Inr (RepoDigest currentImage \<noteq> RepoDigest latestImage)
         else Inr (ID currentImage \<noteq> ID latestImage))
      else Inr (ID currentImage \<noteq> ID latestImage))"

definition check_report ::
  "manager \<Rightarrow> string \<Rightarrow> CheckOptions \<Rightarrow> ImageReference \<Rightarrow> ImageReference \<Rightarrow> CheckResult \<Rightarrow>
     world \<Rightarrow> (CheckResult \<times> error option) run" where
  "check_report cm name opts currentImage latestImage result w =
     (let w1 = (if co_Cleanup opts \<and> cr_NeedsUpdate result then
                  (case RemoveImage (ID latestImage) w of
                     (Some err, w') \<Rightarrow>
                       emit (Warn (''Failed to cleanup image '' @ ID latestImage @ '': '' @ Error err)) w'
                   | (None, w') \<Rightarrow> w')
                else w)
      in if cr_NeedsUpdate result \<and> mc_notify cm \<and> co_Notify opts then
           (case String currentImage of
              Inl p \<Rightarrow> Fatal p w1
            | Inr cur \<Rightarrow>
                (case String latestImage of
                   Inl p \<Rightarrow> Fatal p w1
                 | Inr lat \<Rightarrow>
                     Ret (result, None)
                       (notifyf cm ''Update Available''
                          (''Container '' @ name @ '' has an update available.'' @ [CHR 0x0A] @
                           ''Current: '' @ cur @ [CHR 0x0A] @ ''Latest: '' @ lat) w1)))
         else Ret (result, None) w1)"

definition check_body ::
  "manager \<Rightarrow> string \<Rightarrow> CheckOptions \<Rightarrow> world \<Rightarrow> (CheckResult \<times> error option) run" where
  "check_body cm name0 opts w =
     (let result = \<lparr>cr_NeedsUpdate = False, cr_CurrentImage = None, cr_UpdateImage = None,
                    cr_Error = None\<rparr>;
          name = CleanContainerName name0
      in case InspectContainer name w of
           (Inl err, w1) \<Rightarrow>
             if IsErrNotFound err
             then Ret (result, Some (Errorf ''container does not exist: '' err)) w1
             else Ret (result, Some (Errorf ''failed to inspect container: '' err)) w1
         | (Inr ctn, w1) \<Rightarrow>
             if \<not> mc_NoFilter cm \<and> \<not> IsContainerEnabled (cfg_Labels (ctn_Config ctn)) then
               Ret (result, Some (Plain ''container not enabled for management'')) w1
             else if \<not> mc_All cm \<and> \<not> ctn_Running ctn then
               Ret (result, Some (Plain ''container not running (use --all to include stopped containers)'')) w1
             else
               (case GetImageInfo (ctn_Image ctn) w1 of
                  (Inl err, w2) \<Rightarrow> Ret (result, Some err) w2
                | (Inr currentImage, w2) \<Rightarrow>
                    (let result1 = result\<lparr>cr_CurrentImage := Some currentImage\<rparr>;
                         label = (case cfg_Labels (ctn_Config ctn) ''zockimate.original_image'' of
                                    Some v \<Rightarrow> v | None \<Rightarrow> []);
                         updateRef = (if label = [] then cfg_Image (ctn_Config ctn) else label)
                     in case PullImage updateRef w2 of
                          (Some err, w3) \<Rightarrow>
                            Ret (result1, Some (Errorf ''failed to pull update image: '' err)) w3
                        | (None, w3) \<Rightarrow>
                            (case GetImageInfo updateRef w3 of
                               (Inl err, w4) \<Rightarrow> Ret (result1, Some err) w4
                             | (Inr latestImage, w4) \<Rightarrow>
                                 (let result2 = result1\<lparr>cr_UpdateImage := Some latestImage\<rparr>
                                  in if Platform currentImage \<noteq> Platform latestImage then
                                       Ret (result2, Some (architecture_mismatch currentImage latestImage)) w4
                                     else
                                       (case compare_images currentImage latestImage of
                                          Inl err \<Rightarrow>
                                            Ret (result2\<lparr>cr_NeedsUpdate := False\<rparr>, Some err) w4
                                        | Inr needs \<Rightarrow>
                                            check_report cm name opts currentImage latestImage
                                              (result2\<lparr>cr_NeedsUpdate := needs\<rparr>) w4))))))"

definition CheckContainer ::
  "manager \<Rightarrow> string \<Rightarrow> CheckOptions \<Rightarrow> world \<Rightarrow> (CheckResult \<times> error option) run" where
  "CheckContainer cm name opts w = locked (check_body cm name opts) w"

subsection \<open>CreateSnapshot (manager.go)\<close>

record SnapshotOptions =
  so_Message :: string
  so_DryRun :: bool
  so_Force :: bool
  so_NoCleanup :: bool

text \<open>\<open>if zfsSnapshot != "" { cm.zfs.DeleteSnapshot(zfsSnapshot) }\<close>: the result is dropped.\<close>

definition discard_zfs :: "string \<Rightarrow> world \<Rightarrow> world" where
  "discard_zfs zfsSnapshot w =
     (if zfsSnapshot \<noteq> [] then snd (zfs_DeleteSnapshot zfsSnapshot w) else w)"

definition snapshot_store ::
  "manager \<Rightarrow> string \<Rightarrow> SnapshotOptions \<Rightarrow> ContainerJSON \<Rightarrow> ImageReference \<Rightarrow> string \<Rightarrow>
     world \<Rightarrow> (error + ContainerSnapshot option) run" where
  "snapshot_store cm name opts ctn imageRef zfsSnapshot w =
     (case GetContainerConfigs ctn w of
        (Inl err, w1) \<Rightarrow>
          Ret (Inl (Errorf ''failed to get container configs: '' err)) (discard_zfs zfsSnapshot w1)
      | (Inr (config, hostConfig, networkConfig), w1) \<Rightarrow>
          (case Now w1 of
             (t, w2) \<Rightarrow>
               (case SaveSnapshot
                       \<lparr>cs_ID = 0, cs_ContainerName = name, cs_ImageRef = imageRef,
                        cs_Config = config, cs_HostConfig = hostConfig,
                        cs_NetworkConfig = networkConfig, cs_ZFSSnapshot = zfsSnapshot,
                        cs_Status = ''snapshot'', cs_Message = so_Message opts,
                        cs_CreatedAt = t\<rparr> w2 of
                  ((Some err, snapshot), w3) \<Rightarrow>
                    Ret (Inl (Errorf ''failed to save snapshot: '' err)) (discard_zfs zfsSnapshot w3)
                | ((None, snapshot), w3) \<Rightarrow>
                    (let w4 = (if \<not> so_NoCleanup opts then
                                 (case CleanupSnapshots name (mc_Retention cm) w3 of
                                    (Some err, w') \<Rightarrow>
                                      emit (Warn (''Failed to cleanup old snapshots: '' @ Error err)) w'
                                  | (None, w') \<Rightarrow> w')
                               else w3)
                     in Ret (Inr (Some snapshot)) w4))))"

definition create_body ::
  "manager \<Rightarrow> string \<Rightarrow> SnapshotOptions \<Rightarrow> world \<Rightarrow> (error + ContainerSnapshot option) run" where
  "create_body cm name0 opts w =
     (let name = CleanContainerName name0
      in if so_DryRun opts then Ret (Inr None) w
         else
           (case InspectContainer name w of
              (Inl err, w1) \<Rightarrow> Ret (Inl (Errorf ''failed to inspect container: '' err)) w1
            | (Inr ctn, w1) \<Rightarrow>
                if \<not> so_Force opts \<and> \<not> ctn_Running ctn then
                  Ret (Inl (Plain ''container is not running (use --force to snapshot anyway)'')) w1
                else
                  (case GetImageInfo (ctn_Image ctn) w1 of
                     (Inl err, w2) \<Rightarrow> Ret (Inl (Errorf ''failed to get image info: '' err)) w2
                   | (Inr info, w2) \<Rightarrow>
                       (let imageRef =
                              (case cfg_Labels (ctn_Config ctn) ''zockimate.original_image'' of
                                 Some originalImage \<Rightarrow> info\<lparr>Original := originalImage\<rparr>
                               | None \<Rightarrow> info\<lparr>Original := cfg_Image (ctn_Config ctn)\<rparr>);
                            dataset = GetZFSDataset (cfg_Labels (ctn_Config ctn))
                        in if dataset \<noteq> [] then
                             (case zfs_CreateSnapshot dataset w2 of
                                (Inl err, w3) \<Rightarrow>
                                  Ret (Inl (Errorf ''failed to create ZFS snapshot: '' err)) w3
                              | (Inr snapshot, w3) \<Rightarrow>
                                  snapshot_store cm name opts ctn imageRef snapshot w3)
                           else snapshot_store cm name opts ctn imageRef [] w2))))"

definition CreateSnapshot ::
  "manager \<Rightarrow> string \<Rightarrow> SnapshotOptions \<Rightarrow> world \<Rightarrow> (error + ContainerSnapshot option) run" where
  "CreateSnapshot cm name opts w = locked (create_body cm name opts) w"

subsection \<open>RollbackContainer (rollback.go)\<close>

record RollbackOptions =
  ro_SnapshotID :: int
  ro_Image :: bool
  ro_Data :: bool
  ro_Config :: bool
  ro_Force :: bool
  ro_Timeout :: Duration

record RollbackResult =
  rr_ContainerName :: string
  rr_Success :: bool
  rr_SnapshotID :: int
  rr_SafetySnapshot :: int
  rr_ImageRollback :: bool
  rr_DataRollback :: bool
  rr_ConfigRollback :: bool
  rr_Error :: "error option"

definition CannotGuaranteeVersion :: error where
  "CannotGuaranteeVersion =
     Plain ''cannot guarantee exact image version for rollback (use --force to override)''"

text \<open>\<open>%v\<close> of an error that may be \<open>nil\<close>.\<close>

definition fmt_v :: "error option \<Rightarrow> string" where
  "fmt_v e = (case e of None \<Rightarrow> ''<nil>'' | Some err \<Rightarrow> Error err)"

text \<open>
  The part of \<open>RollbackContainer\<close> before \<open>cm.lock.Lock()\<close>: the guards, the snapshot
  to apply and the safety snapshot. Without a pair of snapshots the call returns the
  result at once, with a \<open>nil\<close> error.
\<close>

definition rollback_prepare ::
  "manager \<Rightarrow> string \<Rightarrow> RollbackOptions \<Rightarrow> world \<Rightarrow>
     (RollbackResult \<times> (ContainerSnapshot \<times> ContainerSnapshot) option) run" where
  "rollback_prepare cm name0 opts w =
     (let result = \<lparr>rr_ContainerName = name0, rr_Success = False,
                    rr_SnapshotID = ro_SnapshotID opts, rr_SafetySnapshot = 0,
                    rr_ImageRollback = ro_Image opts, rr_DataRollback = ro_Data opts,
                    rr_ConfigRollback = ro_Config opts, rr_Error = None\<rparr>;
          name = CleanContainerName name0
      in case InspectContainer name w of
           (Inl err, w1) \<Rightarrow>
             if IsErrNotFound err
             then Ret (result\<lparr>rr_Error := Some (Errorf ''container does not exist: '' err)\<rparr>, None) w1
             else Ret (result\<lparr>rr_Error := Some (Errorf ''failed to inspect container: '' err)\<rparr>, None) w1
         | (Inr ctn, w1) \<Rightarrow>
             if \<not> mc_NoFilter cm \<and> \<not> IsContainerEnabled (cfg_Labels (ctn_Config ctn)) then
               Ret (result\<lparr>rr_Error := Some (Plain ''container not enabled for management'')\<rparr>, None) w1
             else
               (case GetSnapshot name (ro_SnapshotID opts) w1 of
                  (Inl err, w2) \<Rightarrow>
                    Ret (result\<lparr>rr_Error := Some (Errorf ''failed to get snapshot: '' err)\<rparr>, None) w2
                | (Inr snapshot, w2) \<Rightarrow>
                    (case CreateSnapshot cm name
                            \<lparr>so_Message = ''Auto-save before rollback to snapshot '' @ fmt_d (cs_ID snapshot),
                             so_DryRun = False, so_Force = False, so_NoCleanup = True\<rparr> w2 of
                       Fatal p w3 \<Rightarrow> Fatal p w3
                     | Ret (Inl err) w3 \<Rightarrow>
                         Ret (result\<lparr>rr_Error := Some (Errorf ''failed to create safety snapshot: '' err)\<rparr>,
                              None) w3
                     | Ret (Inr None) w3 \<Rightarrow> Fatal NilDereference w3
                     | Ret (Inr (Some safetySnapshot)) w3 \<Rightarrow>
                         Ret (result\<lparr>rr_SafetySnapshot := cs_ID safetySnapshot\<rparr>,
                              Some (snapshot, safetySnapshot)) w3)))"

text \<open>
  The part between the two \<open>defer\<close> statements and the \<open>return\<close>: it yields the
  result and the returned error as they are when the deferred calls start to run.
\<close>

definition rollback_recreate ::
  "manager \<Rightarrow> string \<Rightarrow> RollbackOptions \<Rightarrow> ContainerSnapshot \<Rightarrow> RollbackResult \<Rightarrow>
     Config \<Rightarrow> HostConfig \<Rightarrow> NetworkingConfig \<Rightarrow> world \<Rightarrow> (RollbackResult \<times> error option) run" where
  "rollback_recreate cm name opts snapshot result config1 hostConfig networkConfig w =
     (case (if ro_Data opts \<and> cs_ZFSSnapshot snapshot \<noteq> []
            then zfs_RollbackSnapshot (cs_ZFSSnapshot snapshot) w else (None, w)) of
        (Some err, w1) \<Rightarrow>
          (let e = Errorf ''failed to rollback ZFS snapshot: '' err
           in Ret (result\<lparr>rr_Error := Some e\<rparr>, Some e) w1)
      | (None, w1) \<Rightarrow>
          (let config2 =
                 (if ro_Image opts then
                    (if Original (cs_ImageRef snapshot) \<noteq> [] then
                       config1\<lparr>cfg_Image := BestReference (cs_ImageRef snapshot),
                               cfg_Labels := (cfg_Labels config1)
                                 (''zockimate.original_image'' \<mapsto> Original (cs_ImageRef snapshot))\<rparr>
                     else config1\<lparr>cfg_Image := BestReference (cs_ImageRef snapshot)\<rparr>)
                  else config1)
           in case RecreateContainer name config2 hostConfig networkConfig w1 of
                (Some err, w2) \<Rightarrow>
                  (let e = Errorf ''failed to recreate container: '' err
                   in Ret (result\<lparr>rr_Error := Some e\<rparr>, Some e) w2)
              | (None, w2) \<Rightarrow>
                  (case WaitForContainer name (GetTimeout (cfg_Labels config2) (ro_Timeout opts)) w2 of
                     (Some err, w3) \<Rightarrow>
                       (let e = Errorf ''container failed to become ready after rollback: '' err
                        in Ret (result\<lparr>rr_Error := Some e\<rparr>, Some e) w3)
                   | (None, w3) \<Rightarrow>
                       if mc_notify cm then
                         (case String (cs_ImageRef snapshot) of
                            Inl p \<Rightarrow> Fatal p w3
                          | Inr img \<Rightarrow>
                              Ret (result\<lparr>rr_Success := True\<rparr>, None)
                                (notifyf cm ''Rollback Successful''
                                   (''Container '' @ name @ '' successfully rolled back to snapshot '' @
                                    fmt_d (cs_ID snapshot) @ '' (Image: '' @ img @ '')'') w3))
                       else Ret (result\<lparr>rr_Success := True\<rparr>, None) w3)))"

definition rollback_apply ::
  "manager \<Rightarrow> string \<Rightarrow> RollbackOptions \<Rightarrow> ContainerSnapshot \<Rightarrow> RollbackResult \<Rightarrow>
     world \<Rightarrow> (RollbackResult \<times> error option) run" where
  "rollback_apply cm name opts snapshot result w =
     (case Unmarshal (cs_Config snapshot) of
        Inl err \<Rightarrow>
          (let e = Errorf ''failed to unmarshal config: '' err
           in Ret (result\<lparr>rr_Error := Some e\<rparr>, Some e) w)
      | Inr config0 \<Rightarrow>
          (case Unmarshal (cs_HostConfig snapshot) of
             Inl err \<Rightarrow>
               (let e = Errorf ''failed to unmarshal host config: '' err
                in Ret (result\<lparr>rr_Error := Some e\<rparr>, Some e) w)
           | Inr hostConfig \<Rightarrow>
               (case Unmarshal (cs_NetworkConfig snapshot) of
                  Inl err \<Rightarrow>
                    (let e = Errorf ''failed to unmarshal network config: '' err
                     in Ret (result\<lparr>rr_Error := Some e\<rparr>, Some e) w)
                | Inr networkConfig \<Rightarrow>
                    (let config = config0\<lparr>cfg_Labels := (cfg_Labels config0)
                                    (''zockimate.snapshot_id'' \<mapsto> fmt_d (cs_ID snapshot))\<rparr>
                     in if ro_Image opts then
                          (if \<not> ro_Force opts \<and> \<not> IsExactReference (cs_ImageRef snapshot) then
                             Ret (result\<lparr>rr_Error := Some CannotGuaranteeVersion\<rparr>,
                                  Some CannotGuaranteeVersion) w
                           else
                             (case PullImage (BestReference (cs_ImageRef snapshot)) w of
                                (Some err, w1) \<Rightarrow>
                                  (let e = Errorf ''failed to pull rollback image: '' err
                                   in Ret (result\<lparr>rr_Error := Some e\<rparr>, Some e) w1)
                              | (None, w1) \<Rightarrow>
                                  rollback_recreate cm name opts snapshot result
                                    (config\<lparr>cfg_Image := BestReference (cs_ImageRef snapshot),
                                            cfg_Labels := (cfg_Labels config)
                                              (''zockimate.original_image'' \<mapsto>
                                                 Original (cs_ImageRef snapshot))\<rparr>)
                                    hostConfig networkConfig w1))
                        else rollback_recreate cm name opts snapshot result config
                               hostConfig networkConfig w))))"

text \<open>The options of the compensating rollback, in \<open>RollbackContainer\<close> and in \<open>UpdateContainer\<close>.\<close>

definition restore_options :: "int \<Rightarrow> RollbackOptions" where
  "restore_options i =
     \<lparr>ro_SnapshotID = i, ro_Image = True, ro_Data = True, ro_Config = True, ro_Force = True,
      ro_Timeout = 0\<rparr>"

text \<open>
  The two deferred calls of \<open>RollbackContainer\<close>, in the order they run: first the
  handler, which on a failed rollback unlocks and calls \<open>restore\<close>, the rollback to the
  safety snapshot, then \<open>cm.lock.Unlock()\<close>. The returned result is the one the handler
  has last written; the returned error is the one of the \<open>return\<close> statement.
\<close>

definition rollback_deferred ::
  "(world \<Rightarrow> (RollbackResult \<times> error option) run option) \<Rightarrow> RollbackResult \<Rightarrow> error option \<Rightarrow>
     world \<Rightarrow> (RollbackResult \<times> error option) run option" where
  "rollback_deferred restore result1 err w3 =
     (case (if rr_Error result1 \<noteq> None then
              (case Unlock (emit (LogError
                       ''Rollback failed, attempting to restore from safety snapshot'') w3) of
                 Fatal p w4 \<Rightarrow> Some (Fatal p w4)
               | Ret u' w4 \<Rightarrow>
                   (case restore w4 of
                      None \<Rightarrow> None
                    | Some (Fatal p w5) \<Rightarrow> Some (Fatal p w5)
                    | Some (Ret (safetyResult, err') w5) \<Rightarrow>
                        if err' \<noteq> None \<or> \<not> rr_Success safetyResult then
                          Some (Ret (result1\<lparr>rr_Error := Some (Plain
                             (''failed to restore safety snapshot: '' @
                              fmt_v (rr_Error safetyResult) @ '' (original error: '' @
                              fmt_v (rr_Error result1) @ '')''))\<rparr>) w5)
                        else Some (Ret result1 w5)))
            else Some (Ret result1 w3)) of
        None \<Rightarrow> None
      | Some (Fatal p w6) \<Rightarrow> Some (Fatal p w6)
      | Some (Ret result2 w6) \<Rightarrow>
          (case Unlock w6 of
             Fatal p w7 \<Rightarrow> Some (Fatal p w7)
           | Ret u'' w7 \<Rightarrow> Some (Ret (result2, err) w7)))"

text \<open>
  \<open>RollbackContainer\<close> calls itself from its deferred handler, and nothing bounds the
  depth of these calls: \<open>fuel\<close> is the number of nested calls allowed, and \<open>None\<close> means
  that they did not end within it.
\<close>

fun RollbackContainer ::
  "nat \<Rightarrow> manager \<Rightarrow> string \<Rightarrow> RollbackOptions \<Rightarrow> world \<Rightarrow>
     (RollbackResult \<times> error option) run option" where
  "RollbackContainer 0 cm name0 opts w = None"
| "RollbackContainer (Suc fuel) cm name0 opts w =
     (case rollback_prepare cm name0 opts w of
        Fatal p w1 \<Rightarrow> Some (Fatal p w1)
      | Ret (result, None) w1 \<Rightarrow> Some (Ret (result, None) w1)
      | Ret (result, Some (snapshot, safetySnapshot)) w1 \<Rightarrow>
          (case Lock w1 of
             Fatal p w2 \<Rightarrow> Some (Fatal p w2)
           | Ret u w2 \<Rightarrow>
               (case rollback_apply cm (CleanContainerName name0) opts snapshot result w2 of
                  Fatal p w3 \<Rightarrow> Some (Fatal p w3)
                | Ret (result1, err) w3 \<Rightarrow>
                    rollback_deferred
                      (\<lambda>w4. RollbackContainer fuel cm (CleanContainerName name0)
                               (restore_options (cs_ID safetySnapshot)) w4)
                      result1 err w3)))"

text \<open>The same outcome with the returned value changed by \<open>f\<close>.\<close>

fun map_run :: "('a \<Rightarrow> 'b) \<Rightarrow> 'a run \<Rightarrow> 'b run" where
  "map_run f (Fatal p w) = Fatal p w"
| "map_run f (Ret r w) = Ret (f r) w"

subsection \<open>UpdateContainer (update.go)\<close>

record UpdateOptions =
  uo_Force :: bool
  uo_DryRun :: bool
  uo_Timeout :: Duration
  uo_ContainerReadyTimeout :: Duration
  uo_Notify :: bool

record UpdateResult =
  ur_ContainerName :: string
  ur_Success :: bool
  ur_NeedsUpdate :: bool
  ur_RollbackNeeded :: bool
  ur_SnapshotID :: int
  ur_OldImage :: "ImageReference option"
  ur_NewImage :: "ImageReference option"
  ur_Error :: "error option"

definition DefaultCheckTimeout :: Duration where
  "DefaultCheckTimeout = 30 * Minute"

text \<open>
  The part of \<open>UpdateContainer\<close> before \<open>cm.lock.Lock()\<close>. Without a container the
  call returns the result and the error at once; otherwise it goes on with the inspected
  container and the pre-update snapshot.
\<close>

definition update_prepare ::
  "manager \<Rightarrow> string \<Rightarrow> UpdateOptions \<Rightarrow> world \<Rightarrow>
     (UpdateResult \<times> error option \<times> (ContainerJSON \<times> ContainerSnapshot option) option) run" where
  "update_prepare cm name0 opts w =
     (let result = \<lparr>ur_ContainerName = name0, ur_Success = False, ur_NeedsUpdate = False,
                    ur_RollbackNeeded = False, ur_SnapshotID = 0, ur_OldImage = None,
                    ur_NewImage = None, ur_Error = None\<rparr>;
          name = CleanContainerName name0
      in if uo_DryRun opts then Ret (result, None, None) w
         else
           (case InspectContainer name w of
              (Inl err, w1) \<Rightarrow>
                if IsErrNotFound err
                then Ret (result\<lparr>ur_Error := Some (Errorf ''container does not exist: '' err)\<rparr>,
                          None, None) w1
                else Ret (result\<lparr>ur_Error := Some (Errorf ''failed to inspect container: '' err)\<rparr>,
                          None, None) w1
            | (Inr ctn, w1) \<Rightarrow>
                if \<not> mc_NoFilter cm \<and> \<not> IsContainerEnabled (cfg_Labels (ctn_Config ctn)) then
                  Ret (result\<lparr>ur_Error := Some (Plain ''container not enabled for management'')\<rparr>,
                       None, None) w1
                else if \<not> mc_All cm \<and> \<not> ctn_Running ctn then
                  Ret (result\<lparr>ur_Error := Some (Plain
                         ''container not running (use --all to include stopped containers)'')\<rparr>,
                       None, None) w1
                else
                  (case CheckContainer cm name
                          \<lparr>co_Force = False, co_Cleanup = False, co_Timeout = DefaultCheckTimeout,
                           co_Notify = False\<rparr> w1 of
                     Fatal p w2 \<Rightarrow> Fatal p w2
                   | Ret (checkResult, Some err) w2 \<Rightarrow>
                       Ret (result\<lparr>ur_Error := Some (Errorf ''failed to check for updates: '' err)\<rparr>,
                            None, None) w2
                   | Ret (checkResult, None) w2 \<Rightarrow>
                       (let result1 = result\<lparr>ur_OldImage := cr_CurrentImage checkResult,
                                              ur_NewImage := cr_UpdateImage checkResult,
                                              ur_NeedsUpdate := cr_NeedsUpdate checkResult\<rparr>
                        in if \<not> cr_NeedsUpdate checkResult \<and> \<not> uo_Force opts then
                             Ret (result1, None, None) w2
                           else
                             (case CreateSnapshot cm name
                                     \<lparr>so_Message = ''Pre-update snapshot'', so_DryRun = False,
                                      so_Force = False, so_NoCleanup = True\<rparr> w2 of
                                Fatal p w3 \<Rightarrow> Fatal p w3
                              | Ret (Inl err) w3 \<Rightarrow>
                                  Ret (result1,
                                       Some (Errorf ''failed to create pre-update snapshot: '' err),
                                       None) w3
                              | Ret (Inr safetySnapshot) w3 \<Rightarrow>
                                  Ret (result1, None, Some (ctn, safetySnapshot)) w3)))))"

text \<open>
  From the lock to the readiness wait. \<open>Inl\<close> is a \<open>return\<close> of the result and the
  error; \<open>Inr\<close> is the failed wait, with its error, where the compensation starts.
\<close>

definition update_locked ::
  "manager \<Rightarrow> string \<Rightarrow> UpdateOptions \<Rightarrow> ContainerJSON \<Rightarrow> UpdateResult \<Rightarrow> world \<Rightarrow>
     ((UpdateResult \<times> error option) + (UpdateResult \<times> error)) \<times> world" where
  "update_locked cm name opts ctn result w =
     (case GetContainerConfigs ctn w of
        (Inl err, w1) \<Rightarrow>
          (Inl (result, Some (Errorf ''failed to get container configurations: '' err)), w1)
      | (Inr (containerConfig, hostConfig, networkConfig), w1) \<Rightarrow>
          (case Unmarshal containerConfig of
             Inl err \<Rightarrow> (Inl (result, Some (Errorf ''failed to unmarshal config: '' err)), w1)
           | Inr config0 \<Rightarrow>
               (case Unmarshal hostConfig of
                  Inl err \<Rightarrow> (Inl (result, Some (Errorf ''failed to unmarshal host config: '' err)), w1)
                | Inr hostCfg \<Rightarrow>
                    (case Unmarshal networkConfig of
                       Inl err \<Rightarrow>
                         (Inl (result, Some (Errorf ''failed to unmarshal network config: '' err)), w1)
                     | Inr netConfig \<Rightarrow>
                         (let config1 =
                                (case cfg_Labels (ctn_Config ctn) ''zockimate.original_image'' of
                                   Some originalImage \<Rightarrow>
                                     config0\<lparr>cfg_Labels := (cfg_Labels config0)
                                               (''zockimate.original_image'' \<mapsto> originalImage),
                                             cfg_Image := originalImage\<rparr>
                                 | None \<Rightarrow> config0);
                              config2 =
                                (case cfg_Labels (ctn_Config ctn) ''zockimate.snapshot_id'' of
                                   Some v \<Rightarrow>
                                     config1\<lparr>cfg_Labels := (cfg_Labels config1)
                                               (''zockimate.snapshot_id'' := None)\<rparr>
                                 | None \<Rightarrow> config1)
                          in case RecreateContainer name config2 hostCfg netConfig w1 of
                               (Some err, w2) \<Rightarrow>
                                 (Inl (result, Some (Errorf ''failed to recreate container: '' err)), w2)
                             | (None, w2) \<Rightarrow>
                                 (case WaitForContainer name
                                         (GetTimeout (cfg_Labels (ctn_Config ctn)) (uo_Timeout opts)) w2 of
                                    (Some err, w3) \<Rightarrow>
                                      (Inr (result\<lparr>ur_RollbackNeeded := True\<rparr>, err),
                                       emit (LogError
                                         ''Container failed to become ready, initiating rollback'') w3)
                                  | (None, w3) \<Rightarrow>
                                      (Inl (result\<lparr>ur_Success := True\<rparr>, None), w3)))))))"

text \<open>
  \<open>UpdateContainer\<close>, with the \<open>fuel\<close> of the compensating rollback. After a failed
  wait it unlocks, rolls back to the pre-update snapshot and returns; the
  \<open>cm.lock.Unlock()\<close> deferred after \<open>cm.lock.Lock()\<close> runs at every return.
\<close>

definition UpdateContainer ::
  "nat \<Rightarrow> manager \<Rightarrow> string \<Rightarrow> UpdateOptions \<Rightarrow> world \<Rightarrow>
     (UpdateResult \<times> error option) run option" where
  "UpdateContainer fuel cm name0 opts w =
     (case update_prepare cm name0 opts w of
        Fatal p w1 \<Rightarrow> Some (Fatal p w1)
      | Ret (result, err, None) w1 \<Rightarrow> Some (Ret (result, err) w1)
      | Ret (result, err, Some (ctn, safetySnapshot)) w1 \<Rightarrow>
          (case Lock w1 of
             Fatal p w2 \<Rightarrow> Some (Fatal p w2)
           | Ret u w2 \<Rightarrow>
               (case (case update_locked cm (CleanContainerName name0) opts ctn result w2 of
                        (Inl (result1, err1), w3) \<Rightarrow> Some (Ret (result1, err1) w3)
                      | (Inr (result1, waitErr), w3) \<Rightarrow>
                          (case Unlock w3 of
                             Fatal p w4 \<Rightarrow> Some (Fatal p w4)
                           | Ret u' w4 \<Rightarrow>
                               (case safetySnapshot of
                                  None \<Rightarrow> Some (Fatal NilDereference w4)
                                | Some pre \<Rightarrow>
                                    (case RollbackContainer fuel cm (CleanContainerName name0)
                                            (restore_options (cs_ID pre)) w4 of
                                       None \<Rightarrow> None
                                     | Some (Fatal p w5) \<Rightarrow> Some (Fatal p w5)
                                     | Some (Ret (rollbackResult, rollbackErr) w5) \<Rightarrow>
                                         if rollbackErr \<noteq> None \<or> \<not> rr_Success rollbackResult then
                                           Some (Ret (result1\<lparr>ur_Error := Some (Plain
                                              (''update failed and rollback failed: '' @
                                               fmt_v (rr_Error rollbackResult) @
                                               '' (original error: '' @ Error waitErr @ '')''))\<rparr>,
                                              None) w5)
                                         else
                                           Some (Ret (result1\<lparr>ur_Error := Some (Plain
                                              (''update failed (rolled back to previous version: '' @
                                               fmt_d (rr_SnapshotID rollbackResult) @ ''): '' @
                                               Error waitErr))\<rparr>, None) w5))))) of
                  None \<Rightarrow> None
                | Some (Fatal p w6) \<Rightarrow> Some (Fatal p w6)
                | Some (Ret r w6) \<Rightarrow>
                    (case Unlock w6 of
                       Fatal p w7 \<Rightarrow> Some (Fatal p w7)
                     | Ret u'' w7 \<Rightarrow> Some (Ret r w7)))))"

subsection \<open>Reading outcomes\<close>

text \<open>The world at the end of a call, and the events that change a container or a dataset.\<close>

fun world_of :: "'a run \<Rightarrow> world" where
  "world_of (Fatal p w) = w"
| "world_of (Ret r w) = w"

definition engine_mutation :: "event \<Rightarrow> bool" where
  "engine_mutation e =
     (case e of
        Stopped n \<Rightarrow> True
      | Removed n \<Rightarrow> True
      | Created n c h k \<Rightarrow> True
      | Started n \<Rightarrow> True
      | ZfsCmd argv \<Rightarrow> True
      | _ \<Rightarrow> False)"

section \<open>An example environment\<close>

text \<open>
  A host whose clock shows second \<open>n\<close> of 2024-01-01 00:00 UTC at its \<open>n\<close>-th reading
  and where no call fails by itself. It runs one managed container, \<open>web\<close>, on
  \<open>nginx:1.24\<close>, with a health check and a readiness timeout of two seconds.
\<close>

definition example_epoch :: Time where
  "example_epoch = 63839664000 * Second"

definition two_digits :: "int \<Rightarrow> string" where
  "two_digits n = [''0123456789'' ! nat (n div 10 mod 10), ''0123456789'' ! nat (n mod 10)]"

definition example_Format :: "layout \<Rightarrow> Time \<Rightarrow> string" where
  "example_Format l t =
     (let sec = (t - example_epoch) div Second
      in case l of
           RFC3339 \<Rightarrow> ''2024-01-01T00:00:'' @ two_digits sec @ ''Z''
         | DateOnly \<Rightarrow> ''2024-01-01''
         | DateTime \<Rightarrow> ''2024-01-01 00:00:'' @ two_digits sec
         | Compact \<Rightarrow> ''20240101_0000'' @ two_digits sec)"

definition example_ParseTime :: "string \<Rightarrow> Time option" where
  "example_ParseTime s = (if length s = 20 \<or> length s = 19 then Some example_epoch else None)"

definition nginx_old :: ImageInspect where
  "nginx_old =
     \<lparr>ii_ID = ''sha256:aaaaaaaaaaaaaaaa'', ii_RepoDigests = [''nginx@sha256:1111''],
      ii_RepoTags = [''nginx:1.24''], ii_Architecture = ''amd64'', ii_Os = ''linux''\<rparr>"

definition nginx_new :: ImageInspect where
  "nginx_new =
     \<lparr>ii_ID = ''sha256:bbbbbbbbbbbbbbbb'', ii_RepoDigests = [''nginx@sha256:2222''],
      ii_RepoTags = [''nginx:1.24''], ii_Architecture = ''amd64'', ii_Os = ''linux''\<rparr>"

definition web_config :: Config where
  "web_config =
     \<lparr>cfg_Image = ''nginx:1.24'',
      cfg_Labels = [''zockimate.enable'' \<mapsto> ''true'', ''zockimate.timeout'' \<mapsto> ''2s''],
      cfg_Rest = ''{}''\<rparr>"

definition web :: ContainerJSON where
  "web =
     \<lparr>ctn_Image = ''sha256:aaaaaaaaaaaaaaaa'', ctn_Config = web_config, ctn_HostConfig = ''{}'',
      ctn_Networks = ''{}'', ctn_Running = True, ctn_Health = Some \<lparr>Status = ''healthy''\<rparr>\<rparr>"

definition example_manager :: manager where
  "example_manager = \<lparr>mc_NoFilter = False, mc_All = False, mc_Retention = 10, mc_notify = False\<rparr>"

definition host :: world where
  "host =
     \<lparr>containers = [''web'' \<mapsto> web],
      images = [''sha256:aaaaaaaaaaaaaaaa'' \<mapsto> nginx_old, ''nginx:1.24'' \<mapsto> nginx_old,
                ''nginx@sha256:1111'' \<mapsto> nginx_old],
      registry = [''nginx:1.24'' \<mapsto> nginx_old, ''nginx@sha256:1111'' \<mapsto> nginx_old],
      boots = (\<lambda>c. (True, Some \<lparr>Status = ''healthy''\<rparr>)),
      rows = [],
      next_id = 1,
      cursors = 0,
      datasets = [],
      lock = False,
      calls = (\<lambda>s. 0),
      faults = (\<lambda>s n. False),
      clock_reads = 0,
      tick = (\<lambda>n. example_epoch + int n * Second),
      Format = example_Format,
      ParseTime = example_ParseTime,
      events = []\<rparr>"

text \<open>A row as \<open>SaveSnapshot\<close> writes it, for \<open>web\<close>, taken at second \<open>sec\<close>.\<close>

definition web_row :: "int \<Rightarrow> ImageReference \<Rightarrow> string \<Rightarrow> int \<Rightarrow> row" where
  "web_row i ref zfs sec =
     \<lparr>row_id = i, container_name = ''web'', image_id = ID ref, image_digest = RepoDigest ref,
      image_tag = Tag ref, original_image = Original ref, row_config = Json web_config,
      host_config = Json ''{}'', network_config = Json ''{}'', zfs_snapshot = Some zfs,
      status = ''snapshot'', message = ''saved'',
      created_at = ''2023-12-31T23:59:'' @ two_digits sec @ ''Z''\<rparr>"

text \<open>Three snapshots of \<open>web\<close>, each with a dataset snapshot that exists.\<close>

definition digest_ref :: ImageReference where
  "digest_ref =
     \<lparr>ID = ''sha256:aaaaaaaaaaaaaaaa'', RepoDigest = ''nginx@sha256:1111'', Tag = ''nginx:1.24'',
      Original = ''nginx:1.24'', Platform = []\<rparr>"

definition host3 :: world where
  "host3 =
     host\<lparr>rows := [web_row 1 digest_ref ''tank/web@snapshot_1'' 1,
                    web_row 2 digest_ref ''tank/web@snapshot_2'' 2,
                    web_row 3 digest_ref ''tank/web@snapshot_3'' 3],
          next_id := 4,
          datasets := [''tank/web@snapshot_1'', ''tank/web@snapshot_2'', ''tank/web@snapshot_3'']\<rparr>"

definition remove_all_zfs :: RemoveOptions where
  "remove_all_zfs =
     \<lparr>rm_Force = True, rm_WithContainer = False, rm_OlderThan = 0, rm_Before = 0, rm_All = True,
      rm_DryRun = False, rm_Zfs = True\<rparr>"

text \<open>
  The same host when the registry has a newer \<open>nginx:1.24\<close> whose container starts but
  never reports healthy; a container started from the older image, referred to by its
  digest, is healthy.
\<close>

definition host_new :: world where
  "host_new =
     host\<lparr>registry := [''nginx:1.24'' \<mapsto> nginx_new, ''nginx@sha256:1111'' \<mapsto> nginx_old],
          boots := (\<lambda>c. if cfg_Image c = ''nginx:1.24''
                         then (True, Some \<lparr>Status = ''unhealthy''\<rparr>)
                         else (True, Some \<lparr>Status = ''healthy''\<rparr>))\<rparr>"

definition default_check :: CheckOptions where
  "default_check =
     \<lparr>co_Force = False, co_Cleanup = True, co_Timeout = DefaultCheckTimeout, co_Notify = False\<rparr>"

definition default_update :: UpdateOptions where
  "default_update =
     \<lparr>uo_Force = False, uo_DryRun = False, uo_Timeout = 30 * Minute,
      uo_ContainerReadyTimeout = 30 * Minute, uo_Notify = False\<rparr>"

text \<open>
  The host with one earlier snapshot of \<open>web\<close>, number 7, that recorded neither a
  repository digest nor a local image id, and the command \<open>rollback web 7 -i\<close>.
\<close>

definition tag_only :: ImageReference where
  "tag_only =
     \<lparr>ID = [], RepoDigest = [], Tag = ''nginx:1.24'', Original = ''nginx:1.24'', Platform = []\<rparr>"

definition host7 :: world where
  "host7 = host\<lparr>rows := [web_row 7 tag_only [] 7], next_id := 8\<rparr>"

definition rollback_image_7 :: RollbackOptions where
  "rollback_image_7 =
     \<lparr>ro_SnapshotID = 7, ro_Image = True, ro_Data = False, ro_Config = False, ro_Force = False,
      ro_Timeout = 30 * Minute\<rparr>"

definition is_create :: "event \<Rightarrow> bool" where
  "is_create e = (case e of Created n c h k \<Rightarrow> True | _ \<Rightarrow> False)"

text \<open>The command \<open>rollback web 3 -i -d\<close> on the host with three snapshots.\<close>

definition rollback_image_data_3 :: RollbackOptions where
  "rollback_image_data_3 =
     \<lparr>ro_SnapshotID = 3, ro_Image = True, ro_Data = True, ro_Config = False, ro_Force = False,
      ro_Timeout = 30 * Minute\<rparr>"

text \<open>
  The host when \<open>web\<close> keeps its data on the dataset \<open>tank/web\<close>, at a moment when the
  store refuses the next statement and the dataset tool fails at its second invocation.
\<close>

definition web_on_zfs :: ContainerJSON where
  "web_on_zfs =
     web\<lparr>ctn_Config := web_config\<lparr>cfg_Labels :=
            (cfg_Labels web_config)(''zockimate.zfs_dataset'' \<mapsto> ''tank/web'')\<rparr>\<rparr>"

definition host_failing :: world where
  "host_failing =
     host\<lparr>containers := [''web'' \<mapsto> web_on_zfs],
          faults := (\<lambda>s n. (s = Store \<and> n = 0) \<or> (s = Zfs \<and> n = 1))\<rparr>"

definition save_options :: SnapshotOptions where
  "save_options = \<lparr>so_Message = ''manual'', so_DryRun = False, so_Force = False, so_NoCleanup = False\<rparr>"

section \<open>Evaluating the example environment\<close>

lemmas example_simps =
  example_epoch_def two_digits_def example_Format_def example_ParseTime_def nginx_old_def nginx_new_def
  web_config_def web_def example_manager_def host_def web_row_def digest_ref_def host3_def
  remove_all_zfs_def host_new_def default_check_def default_update_def tag_only_def host7_def
  rollback_image_7_def is_create_def rollback_image_data_3_def web_on_zfs_def host_failing_def
  save_options_def

lemma ParseDuration_2s: "ParseDuration ''2s'' = Some 2000000000"
  by (simp add: ParseDuration_def parse_term_def is_digit_def digit_val_def unitMap_def
        unit_char_def)

lemma wait_loop_numeral:
  "wait_loop (numeral k) name w =
     (case ContainerInspect name w of
        (Inl err, w1) \<Rightarrow> (Some err, w1)
      | (Inr c, w1) \<Rightarrow>
          (case ctn_Health c of
             Some h \<Rightarrow>
               if Status h = ''healthy'' then (None, w1) else wait_loop (pred_numeral k) name w1
           | None \<Rightarrow> if ctn_Running c then (None, w1) else wait_loop (pred_numeral k) name w1))"
  by (simp add: numeral_eq_Suc)

lemmas eval_simps =
  fault_def Now_def emit_def
  zfs_run_def zfs_CreateSnapshot_def zfs_RollbackSnapshot_def zfs_DeleteSnapshot_def dataset_of_def
  select_past_offset_def delete_by_id_def destroy_best_effort_def CleanupSnapshots_def
  write_refused_def close_cursor_def
  newest_first_def SaveSnapshot_def GetSnapshot_def fmt_d_def decimal.simps
  ContainerInspect_def ContainerStop_def ContainerRemoveForce_def ContainerCreate_def
  ContainerStart_def PullImage_def GetImageInfo_def RecreateContainer_def WaitForContainer_def
  InspectContainer_def GetContainerConfigs_def RemoveImage_def Marshal_def Unmarshal_def
  Lock_def Unlock_def locked_def CleanContainerName_def IsContainerEnabled_def GetZFSDataset_def
  notifyf_def architecture_mismatch_def compare_images_def check_report_def check_body_def
  CheckContainer_def discard_zfs_def snapshot_store_def create_body_def CreateSnapshot_def
  CannotGuaranteeVersion_def fmt_v_def rollback_prepare_def rollback_recreate_def
  rollback_apply_def rollback_deferred_def restore_options_def DefaultCheckTimeout_def update_prepare_def
  update_locked_def UpdateContainer_def IsExactReference_def BestReference_def String_def
  slice_to_def sprintf_paren_def GetTimeout_def Hour_def Minute_def Second_def Millisecond_def
  Microsecond_def Nanosecond_def ParseDuration_2s wait_loop_numeral example_simps Let_def

section \<open>What each call leaves unchanged\<close>

lemma fault_frame [simp]:
  "rows (snd (fault s w)) = rows w"
  "next_id (snd (fault s w)) = next_id w"
  "datasets (snd (fault s w)) = datasets w"
  "lock (snd (fault s w)) = lock w"
  "faults (snd (fault s w)) = faults w"
  "containers (snd (fault s w)) = containers w"
  "cursors (snd (fault s w)) = cursors w"
  by (simp_all add: fault_def split_beta Let_def
        split: option.splits sum.splits list.splits if_splits)

lemma Now_frame [simp]:
  "rows (snd (Now w)) = rows w"
  "next_id (snd (Now w)) = next_id w"
  "datasets (snd (Now w)) = datasets w"
  "lock (snd (Now w)) = lock w"
  "faults (snd (Now w)) = faults w"
  "containers (snd (Now w)) = containers w"
  "cursors (snd (Now w)) = cursors w"
  by (simp_all add: Now_def split_beta Let_def
        split: option.splits sum.splits list.splits if_splits)

lemma emit_frame [simp]:
  "rows (emit e w) = rows w"
  "next_id (emit e w) = next_id w"
  "datasets (emit e w) = datasets w"
  "lock (emit e w) = lock w"
  "faults (emit e w) = faults w"
  "containers (emit e w) = containers w"
  "cursors (emit e w) = cursors w"
  by (simp_all add: emit_def split_beta Let_def
        split: option.splits sum.splits list.splits if_splits)

lemma close_cursor_frame [simp]:
  "rows (close_cursor w) = rows w"
  "next_id (close_cursor w) = next_id w"
  "datasets (close_cursor w) = datasets w"
  "lock (close_cursor w) = lock w"
  "faults (close_cursor w) = faults w"
  "containers (close_cursor w) = containers w"
  by (simp_all add: close_cursor_def split_beta Let_def
        split: option.splits sum.splits list.splits if_splits)

lemma zfs_run_frame [simp]:
  "rows (snd (zfs_run argv w)) = rows w"
  "next_id (snd (zfs_run argv w)) = next_id w"
  "lock (snd (zfs_run argv w)) = lock w"
  "faults (snd (zfs_run argv w)) = faults w"
  "containers (snd (zfs_run argv w)) = containers w"
  "cursors (snd (zfs_run argv w)) = cursors w"
  by (simp_all add: zfs_run_def split_beta Let_def
        split: option.splits sum.splits list.splits if_splits)

lemma zfs_CreateSnapshot_frame [simp]:
  "rows (snd (zfs_CreateSnapshot d w)) = rows w"
  "next_id (snd (zfs_CreateSnapshot d w)) = next_id w"
  "lock (snd (zfs_CreateSnapshot d w)) = lock w"
  "faults (snd (zfs_CreateSnapshot d w)) = faults w"
  "containers (snd (zfs_CreateSnapshot d w)) = containers w"
  "cursors (snd (zfs_CreateSnapshot d w)) = cursors w"
  by (simp_all add: zfs_CreateSnapshot_def split_beta Let_def
        split: option.splits sum.splits list.splits if_splits)

lemma zfs_RollbackSnapshot_frame [simp]:
  "rows (snd (zfs_RollbackSnapshot s w)) = rows w"
  "next_id (snd (zfs_RollbackSnapshot s w)) = next_id w"
  "lock (snd (zfs_RollbackSnapshot s w)) = lock w"
  "faults (snd (zfs_RollbackSnapshot s w)) = faults w"
  "containers (snd (zfs_RollbackSnapshot s w)) = containers w"
  "cursors (snd (zfs_RollbackSnapshot s w)) = cursors w"
  by (simp_all add: zfs_RollbackSnapshot_def split_beta Let_def
        split: option.splits sum.splits list.splits if_splits)

lemma zfs_DeleteSnapshot_frame [simp]:
  "rows (snd (zfs_DeleteSnapshot s w)) = rows w"
  "next_id (snd (zfs_DeleteSnapshot s w)) = next_id w"
  "lock (snd (zfs_DeleteSnapshot s w)) = lock w"
  "faults (snd (zfs_DeleteSnapshot s w)) = faults w"
  "containers (snd (zfs_DeleteSnapshot s w)) = containers w"
  "cursors (snd (zfs_DeleteSnapshot s w)) = cursors w"
  by (simp_all add: zfs_DeleteSnapshot_def split_beta Let_def
        split: option.splits sum.splits list.splits if_splits)

lemma SaveSnapshot_frame [simp]:
  "datasets (snd (SaveSnapshot s w)) = datasets w"
  "lock (snd (SaveSnapshot s w)) = lock w"
  "faults (snd (SaveSnapshot s w)) = faults w"
  "containers (snd (SaveSnapshot s w)) = containers w"
  "cursors (snd (SaveSnapshot s w)) = cursors w"
  by (simp_all add: SaveSnapshot_def split_beta Let_def
        split: option.splits sum.splits list.splits if_splits)

lemma GetSnapshot_frame [simp]:
  "rows (snd (GetSnapshot n i w)) = rows w"
  "next_id (snd (GetSnapshot n i w)) = next_id w"
  "datasets (snd (GetSnapshot n i w)) = datasets w"
  "lock (snd (GetSnapshot n i w)) = lock w"
  "faults (snd (GetSnapshot n i w)) = faults w"
  "containers (snd (GetSnapshot n i w)) = containers w"
  "cursors (snd (GetSnapshot n i w)) = cursors w"
  by (simp_all add: GetSnapshot_def split_beta Let_def
        split: option.splits sum.splits list.splits if_splits)

lemma ContainerInspect_frame [simp]:
  "rows (snd (ContainerInspect n w)) = rows w"
  "next_id (snd (ContainerInspect n w)) = next_id w"
  "datasets (snd (ContainerInspect n w)) = datasets w"
  "lock (snd (ContainerInspect n w)) = lock w"
  "faults (snd (ContainerInspect n w)) = faults w"
  "containers (snd (ContainerInspect n w)) = containers w"
  "cursors (snd (ContainerInspect n w)) = cursors w"
  by (simp_all add: ContainerInspect_def split_beta Let_def
        split: option.splits sum.splits list.splits if_splits)

lemma ContainerStop_frame [simp]:
  "rows (snd (ContainerStop n w)) = rows w"
  "next_id (snd (ContainerStop n w)) = next_id w"
  "datasets (snd (ContainerStop n w)) = datasets w"
  "lock (snd (ContainerStop n w)) = lock w"
  "faults (snd (ContainerStop n w)) = faults w"
  "cursors (snd (ContainerStop n w)) = cursors w"
  by (simp_all add: ContainerStop_def split_beta Let_def
        split: option.splits sum.splits list.splits if_splits)

lemma ContainerRemoveForce_frame [simp]:
  "rows (snd (ContainerRemoveForce n w)) = rows w"
  "next_id (snd (ContainerRemoveForce n w)) = next_id w"
  "datasets (snd (ContainerRemoveForce n w)) = datasets w"
  "lock (snd (ContainerRemoveForce n w)) = lock w"
  "faults (snd (ContainerRemoveForce n w)) = faults w"
  "cursors (snd (ContainerRemoveForce n w)) = cursors w"
  by (simp_all add: ContainerRemoveForce_def split_beta Let_def
        split: option.splits sum.splits list.splits if_splits)

lemma ContainerCreate_frame [simp]:
  "rows (snd (ContainerCreate c h k n w)) = rows w"
  "next_id (snd (ContainerCreate c h k n w)) = next_id w"
  "datasets (snd (ContainerCreate c h k n w)) = datasets w"
  "lock (snd (ContainerCreate c h k n w)) = lock w"
  "faults (snd (ContainerCreate c h k n w)) = faults w"
  "cursors (snd (ContainerCreate c h k n w)) = cursors w"
  by (simp_all add: ContainerCreate_def split_beta Let_def
        split: option.splits sum.splits list.splits if_splits)

lemma ContainerStart_frame [simp]:
  "rows (snd (ContainerStart n w)) = rows w"
  "next_id (snd (ContainerStart n w)) = next_id w"
  "datasets (snd (ContainerStart n w)) = datasets w"
  "lock (snd (ContainerStart n w)) = lock w"
  "faults (snd (ContainerStart n w)) = faults w"
  "cursors (snd (ContainerStart n w)) = cursors w"
  by (simp_all add: ContainerStart_def split_beta Let_def
        split: option.splits sum.splits list.splits if_splits)

lemma PullImage_frame [simp]:
  "rows (snd (PullImage r w)) = rows w"
  "next_id (snd (PullImage r w)) = next_id w"
  "datasets (snd (PullImage r w)) = datasets w"
  "lock (snd (PullImage r w)) = lock w"
  "faults (snd (PullImage r w)) = faults w"
  "containers (snd (PullImage r w)) = containers w"
  "cursors (snd (PullImage r w)) = cursors w"
  by (simp_all add: PullImage_def split_beta Let_def
        split: option.splits sum.splits list.splits if_splits)

lemma GetImageInfo_frame [simp]:
  "rows (snd (GetImageInfo r w)) = rows w"
  "next_id (snd (GetImageInfo r w)) = next_id w"
  "datasets (snd (GetImageInfo r w)) = datasets w"
  "lock (snd (GetImageInfo r w)) = lock w"
  "faults (snd (GetImageInfo r w)) = faults w"
  "containers (snd (GetImageInfo r w)) = containers w"
  "cursors (snd (GetImageInfo r w)) = cursors w"
  by (simp_all add: GetImageInfo_def split_beta Let_def
        split: option.splits sum.splits list.splits if_splits)

lemma RecreateContainer_frame [simp]:
  "rows (snd (RecreateContainer n c h k w)) = rows w"
  "next_id (snd (RecreateContainer n c h k w)) = next_id w"
  "datasets (snd (RecreateContainer n c h k w)) = datasets w"
  "lock (snd (RecreateContainer n c h k w)) = lock w"
  "faults (snd (RecreateContainer n c h k w)) = faults w"
  "cursors (snd (RecreateContainer n c h k w)) = cursors w"
  by (simp_all add: RecreateContainer_def split_beta Let_def
        split: option.splits sum.splits list.splits if_splits)

lemma InspectContainer_frame [simp]:
  "rows (snd (InspectContainer n w)) = rows w"
  "next_id (snd (InspectContainer n w)) = next_id w"
  "datasets (snd (InspectContainer n w)) = datasets w"
  "lock (snd (InspectContainer n w)) = lock w"
  "faults (snd (InspectContainer n w)) = faults w"
  "containers (snd (InspectContainer n w)) = containers w"
  "cursors (snd (InspectContainer n w)) = cursors w"
  by (simp_all add: InspectContainer_def split_beta Let_def
        split: option.splits sum.splits list.splits if_splits)

lemma GetContainerConfigs_frame [simp]:
  "rows (snd (GetContainerConfigs c w)) = rows w"
  "next_id (snd (GetContainerConfigs c w)) = next_id w"
  "datasets (snd (GetContainerConfigs c w)) = datasets w"
  "lock (snd (GetContainerConfigs c w)) = lock w"
  "faults (snd (GetContainerConfigs c w)) = faults w"
  "containers (snd (GetContainerConfigs c w)) = containers w"
  "cursors (snd (GetContainerConfigs c w)) = cursors w"
  by (simp_all add: GetContainerConfigs_def split_beta Let_def
        split: option.splits sum.splits list.splits if_splits)

lemma RemoveImage_frame [simp]:
  "rows (snd (RemoveImage i w)) = rows w"
  "next_id (snd (RemoveImage i w)) = next_id w"
  "datasets (snd (RemoveImage i w)) = datasets w"
  "lock (snd (RemoveImage i w)) = lock w"
  "faults (snd (RemoveImage i w)) = faults w"
  "containers (snd (RemoveImage i w)) = containers w"
  "cursors (snd (RemoveImage i w)) = cursors w"
  by (simp_all add: RemoveImage_def split_beta Let_def
        split: option.splits sum.splits list.splits if_splits)

lemma notifyf_frame [simp]:
  "rows (notifyf cm t m w) = rows w"
  "next_id (notifyf cm t m w) = next_id w"
  "datasets (notifyf cm t m w) = datasets w"
  "lock (notifyf cm t m w) = lock w"
  "faults (notifyf cm t m w) = faults w"
  "containers (notifyf cm t m w) = containers w"
  "cursors (notifyf cm t m w) = cursors w"
  by (simp_all add: notifyf_def split_beta Let_def
        split: option.splits sum.splits list.splits if_splits)

lemma discard_zfs_frame [simp]:
  "rows (discard_zfs z w) = rows w"
  "next_id (discard_zfs z w) = next_id w"
  "lock (discard_zfs z w) = lock w"
  "faults (discard_zfs z w) = faults w"
  "containers (discard_zfs z w) = containers w"
  "cursors (discard_zfs z w) = cursors w"
  by (simp_all add: discard_zfs_def split_beta Let_def
        split: option.splits sum.splits list.splits if_splits)

lemma select_past_offset_frame [simp]:
  "rows (snd (select_past_offset n r w)) = rows w"
  "next_id (snd (select_past_offset n r w)) = next_id w"
  "datasets (snd (select_past_offset n r w)) = datasets w"
  "lock (snd (select_past_offset n r w)) = lock w"
  "faults (snd (select_past_offset n r w)) = faults w"
  "containers (snd (select_past_offset n r w)) = containers w"
  by (simp_all add: select_past_offset_def split_beta Let_def
        split: option.splits sum.splits list.splits if_splits)

lemma delete_by_id_frame [simp]:
  "next_id (snd (delete_by_id i w)) = next_id w"
  "datasets (snd (delete_by_id i w)) = datasets w"
  "lock (snd (delete_by_id i w)) = lock w"
  "faults (snd (delete_by_id i w)) = faults w"
  "containers (snd (delete_by_id i w)) = containers w"
  "cursors (snd (delete_by_id i w)) = cursors w"
  by (simp_all add: delete_by_id_def split_beta Let_def
        split: option.splits sum.splits list.splits if_splits)

lemma destroy_best_effort_frame [simp]:
  "rows (destroy_best_effort z w) = rows w"
  "next_id (destroy_best_effort z w) = next_id w"
  "lock (destroy_best_effort z w) = lock w"
  "faults (destroy_best_effort z w) = faults w"
  "containers (destroy_best_effort z w) = containers w"
  "cursors (destroy_best_effort z w) = cursors w"
  by (simp_all add: destroy_best_effort_def split_beta Let_def
        split: option.splits sum.splits list.splits if_splits)

lemma wait_loop_frame [simp]:
  "rows (snd (wait_loop ticks n w)) = rows w"
  "next_id (snd (wait_loop ticks n w)) = next_id w"
  "datasets (snd (wait_loop ticks n w)) = datasets w"
  "lock (snd (wait_loop ticks n w)) = lock w"
  "faults (snd (wait_loop ticks n w)) = faults w"
  "containers (snd (wait_loop ticks n w)) = containers w"
  "cursors (snd (wait_loop ticks n w)) = cursors w"
  by (induction ticks arbitrary: w;
      simp add: split_beta split: option.splits sum.splits if_splits)+

lemma WaitForContainer_frame [simp]:
  "rows (snd (WaitForContainer n t w)) = rows w"
  "next_id (snd (WaitForContainer n t w)) = next_id w"
  "datasets (snd (WaitForContainer n t w)) = datasets w"
  "lock (snd (WaitForContainer n t w)) = lock w"
  "faults (snd (WaitForContainer n t w)) = faults w"
  "containers (snd (WaitForContainer n t w)) = containers w"
  "cursors (snd (WaitForContainer n t w)) = cursors w"
  by (simp_all add: WaitForContainer_def)

lemma cleanup_rows_frame_all:
  "next_id (snd (cleanup_rows old w)) = next_id w \<and>
   lock (snd (cleanup_rows old w)) = lock w \<and>
   faults (snd (cleanup_rows old w)) = faults w \<and>
   containers (snd (cleanup_rows old w)) = containers w \<and>
   cursors (snd (cleanup_rows old w)) = cursors w"
proof (induction old arbitrary: w)
  case Nil
  then show ?case by simp
next
  case (Cons a old)
  obtain i z where a: "a = (i, z)" by (cases a)
  show ?case
    unfolding a
    by (cases "delete_by_id i (destroy_best_effort z w)";
        cases "fst (delete_by_id i (destroy_best_effort z w))")
       (use Cons.IH[of "snd (delete_by_id i (destroy_best_effort z w))"]
          delete_by_id_frame[of i "destroy_best_effort z w"] in auto)
qed

lemma cleanup_rows_frame [simp]:
  "next_id (snd (cleanup_rows old w)) = next_id w"
  "lock (snd (cleanup_rows old w)) = lock w"
  "faults (snd (cleanup_rows old w)) = faults w"
  "containers (snd (cleanup_rows old w)) = containers w"
  "cursors (snd (cleanup_rows old w)) = cursors w"
  using cleanup_rows_frame_all[of old w] by simp_all

lemma CleanupSnapshots_frame [simp]:
  "next_id (snd (CleanupSnapshots n r w)) = next_id w"
  "lock (snd (CleanupSnapshots n r w)) = lock w"
  "faults (snd (CleanupSnapshots n r w)) = faults w"
  "containers (snd (CleanupSnapshots n r w)) = containers w"
  by (simp_all add: CleanupSnapshots_def split_beta split: sum.splits)

section \<open>What each call sends out\<close>

lemma events_frame [simp]:
  "events (snd (fault s w)) = events w"
  "events (snd (Now w)) = events w"
  "events (emit e w) = events w @ [e]"
  "events (close_cursor w) = events w"
  "Format (snd (fault s w)) = Format w"
  "Format (snd (Now w)) = Format w"
  "calls (snd (Now w)) = calls w"
  "calls (emit e w) = calls w"
  "fst (fault s w) = faults w s (calls w s)"
  by (simp_all add: fault_def Now_def emit_def close_cursor_def)

lemma GetSnapshot_events [simp]:
  "events (snd (GetSnapshot n i w)) = events w"
  by (simp add: GetSnapshot_def split_beta Let_def
        split: option.splits sum.splits list.splits if_splits)

lemma SaveSnapshot_events [simp]:
  "events (snd (SaveSnapshot s w)) = events w"
  by (simp add: SaveSnapshot_def split_beta Let_def
        split: option.splits sum.splits list.splits if_splits)

lemma ContainerInspect_events [simp]:
  "events (snd (ContainerInspect n w)) = events w"
  by (simp add: ContainerInspect_def split_beta Let_def
        split: option.splits sum.splits list.splits if_splits)

lemma InspectContainer_events [simp]:
  "events (snd (InspectContainer n w)) = events w"
  by (simp add: InspectContainer_def split_beta Let_def
        split: option.splits sum.splits list.splits if_splits)

lemma GetImageInfo_events [simp]:
  "events (snd (GetImageInfo r w)) = events w"
  by (simp add: GetImageInfo_def split_beta Let_def
        split: option.splits sum.splits list.splits if_splits)

lemma GetContainerConfigs_events [simp]:
  "events (snd (GetContainerConfigs c w)) = events w"
  by (simp add: GetContainerConfigs_def split_beta Let_def
        split: option.splits sum.splits list.splits if_splits)

lemma select_past_offset_events [simp]:
  "events (snd (select_past_offset n r w)) = events w"
  by (simp add: select_past_offset_def split_beta Let_def
        split: option.splits sum.splits list.splits if_splits)

lemma delete_by_id_events [simp]:
  "events (snd (delete_by_id i w)) = events w"
  by (simp add: delete_by_id_def split_beta Let_def
        split: option.splits sum.splits list.splits if_splits)

lemma zfs_run_events [simp]:
  "events (snd (zfs_run argv w)) = events w @ [ZfsCmd argv]"
  by (simp add: zfs_run_def split_beta Let_def
        split: option.splits sum.splits list.splits if_splits)

lemma zfs_RollbackSnapshot_events [simp]:
  "events (snd (zfs_RollbackSnapshot s w)) = events w @ [ZfsCmd [''rollback'', ''-r'', s]]"
  by (simp add: zfs_RollbackSnapshot_def zfs_run_def split_beta Let_def
        split: option.splits sum.splits list.splits if_splits)

lemma ContainerStop_events [simp]:
  "events (snd (ContainerStop n w)) = events w @ [Stopped n]"
  by (simp add: ContainerStop_def split_beta Let_def
        split: option.splits sum.splits list.splits if_splits)

lemma ContainerRemoveForce_events [simp]:
  "events (snd (ContainerRemoveForce n w)) = events w @ [Removed n]"
  by (simp add: ContainerRemoveForce_def split_beta Let_def
        split: option.splits sum.splits list.splits if_splits)

lemma ContainerCreate_events [simp]:
  "events (snd (ContainerCreate c h k n w)) = events w @ [Created n c h k]"
  by (simp add: ContainerCreate_def split_beta Let_def
        split: option.splits sum.splits list.splits if_splits)

lemma ContainerStart_events [simp]:
  "events (snd (ContainerStart n w)) = events w @ [Started n]"
  by (simp add: ContainerStart_def split_beta Let_def
        split: option.splits sum.splits list.splits if_splits)

lemma PullImage_events [simp]:
  "events (snd (PullImage r w)) = events w @ [Pulled r]"
  by (simp add: PullImage_def split_beta Let_def
        split: option.splits sum.splits list.splits if_splits)

lemma RemoveImage_events [simp]:
  "events (snd (RemoveImage i w)) = events w @ [ImageRemoved i]"
  by (simp add: RemoveImage_def split_beta Let_def
        split: option.splits sum.splits list.splits if_splits)

lemma zfs_DeleteSnapshot_events [simp]:
  "events (snd (zfs_DeleteSnapshot s w)) = events w @ [ZfsCmd [''destroy'', s]]"
  by (simp add: zfs_DeleteSnapshot_def split_beta split: option.splits)

lemma zfs_CreateSnapshot_events [simp]:
  "events (snd (zfs_CreateSnapshot d w)) =
     events w @ [ZfsCmd [''snapshot'', d @ ''@snapshot_'' @ Format w Compact (tick w (clock_reads w))]]"
  by (simp add: zfs_CreateSnapshot_def split_beta Let_def Now_def split: option.splits)

lemma wait_loop_events [simp]:
  "events (snd (wait_loop ticks n w)) = events w"
  by (induction ticks arbitrary: w)
     (simp_all add: split_beta split: option.splits sum.splits if_splits)

lemma WaitForContainer_events [simp]:
  "events (snd (WaitForContainer n t w)) = events w"
  by (simp add: WaitForContainer_def)

section \<open>Properties of image references\<close>

text \<open>
  C10. \<open>ImageReference.String\<close> is partial: every branch slices \<open>ID[:12]\<close>, so it
  panics with a slice-out-of-range error exactly when the ID has fewer than 12 bytes
  (whatever the tag and digest are), and it returns a string when the ID has at least
  12 bytes.
\<close>

theorem String_partial:
  "(String ir = Inl SliceOutOfRange) = (length (ID ir) < 12) \<and>
   (\<exists>s. String ir = Inr s) = (12 \<le> length (ID ir))"
  by (auto simp: String_def slice_to_def split: sum.splits)

theorem String_partial_witness:
  "String \<lparr>ID = [], RepoDigest = [], Tag = ''nginx:1.24'', Original = [], Platform = []\<rparr>
     = Inl SliceOutOfRange \<and>
   String \<lparr>ID = ''sha256:0123456789abcdef'', RepoDigest = [], Tag = ''nginx:1.24'',
            Original = [], Platform = []\<rparr> = Inr ''nginx:1.24 (sha256:01234)''"
  using String_partial [of "\<lparr>ID = [], RepoDigest = [], Tag = ''nginx:1.24'', Original = [], Platform = []\<rparr>"]
  by (simp add: String_def slice_to_def sprintf_paren_def)

section \<open>Properties of the readiness timeout\<close>

lemmas duration_simps =
  ParseDuration_def parse_term_def is_digit_def digit_val_def unitMap_def unit_char_def
  Hour_def Minute_def Second_def Millisecond_def Microsecond_def Nanosecond_def

lemma ParseDuration_29s: "ParseDuration ''29s'' = Some (29 * Second)"
  by (simp add: duration_simps)

lemma ParseDuration_30s: "ParseDuration ''30s'' = Some (30 * Second)"
  by (simp add: duration_simps)

lemma ParseDuration_24h: "ParseDuration ''24h'' = Some (24 * Hour)"
  by (simp add: duration_simps)

lemma ParseDuration_24h1s: "ParseDuration ''24h1s'' = Some (24 * Hour + Second)"
  by (simp add: duration_simps)

lemma ParseDuration_soon: "ParseDuration ''soon'' = None"
  by (simp add: duration_simps)

text \<open>
  C4 as stated fails at 29 s: a label of \<open>29s\<close> is below the claimed lower bound of
  30 s, yet \<open>GetTimeout\<close> returns it instead of the default of 30 minutes.
\<close>

theorem GetTimeout_29s_counterexample:
  "GetTimeout [''zockimate.timeout'' \<mapsto> ''29s''] (30 * Minute) = 29 * Second \<and>
   GetTimeout [''zockimate.timeout'' \<mapsto> ''29s''] (30 * Minute) \<noteq> 30 * Minute"
  by (simp add: GetTimeout_def ParseDuration_29s) (simp add: duration_simps)

text \<open>
  C4 (amended). The effective readiness timeout honours the \<open>zockimate.timeout\<close> label
  iff it parses to a duration \<open>d\<close> with \<open>0 < d \<le> 24 h\<close>; otherwise the default is used.
  For the label values 29 s, 30 s, 24 h, 24 h + 1 s and an unparseable string the label is
  respectively honoured, honoured, honoured, ignored and ignored.
\<close>

theorem GetTimeout_label_range:
  "(labels ''zockimate.timeout'' = Some s \<longrightarrow>
      GetTimeout labels dflt =
        (if \<exists>d. ParseDuration s = Some d \<and> 0 < d \<and> d \<le> 24 * Hour
         then the (ParseDuration s) else dflt)) \<and>
   (labels ''zockimate.timeout'' = None \<longrightarrow> GetTimeout labels dflt = dflt) \<and>
   GetTimeout [''zockimate.timeout'' \<mapsto> ''29s''] dflt = 29 * Second \<and>
   GetTimeout [''zockimate.timeout'' \<mapsto> ''30s''] dflt = 30 * Second \<and>
   GetTimeout [''zockimate.timeout'' \<mapsto> ''24h''] dflt = 24 * Hour \<and>
   GetTimeout [''zockimate.timeout'' \<mapsto> ''24h1s''] dflt = dflt \<and>
   GetTimeout [''zockimate.timeout'' \<mapsto> ''soon''] dflt = dflt"
proof -
  have general: "labels ''zockimate.timeout'' = Some s \<longrightarrow>
      GetTimeout labels dflt =
        (if \<exists>d. ParseDuration s = Some d \<and> 0 < d \<and> d \<le> 24 * Hour
         then the (ParseDuration s) else dflt)"
    by (auto simp: GetTimeout_def split: option.splits)
  have absent: "labels ''zockimate.timeout'' = None \<longrightarrow> GetTimeout labels dflt = dflt"
    by (simp add: GetTimeout_def)
  have c29: "GetTimeout [''zockimate.timeout'' \<mapsto> ''29s''] dflt = 29 * Second"
    by (simp add: GetTimeout_def ParseDuration_29s) (simp add: duration_simps)
  have c30: "GetTimeout [''zockimate.timeout'' \<mapsto> ''30s''] dflt = 30 * Second"
    by (simp add: GetTimeout_def ParseDuration_30s) (simp add: duration_simps)
  have c24: "GetTimeout [''zockimate.timeout'' \<mapsto> ''24h''] dflt = 24 * Hour"
    by (simp add: GetTimeout_def ParseDuration_24h) (simp add: duration_simps)
  have c241: "GetTimeout [''zockimate.timeout'' \<mapsto> ''24h1s''] dflt = dflt"
    by (simp add: GetTimeout_def ParseDuration_24h1s) (simp add: duration_simps)
  have cbad: "GetTimeout [''zockimate.timeout'' \<mapsto> ''soon''] dflt = dflt"
    by (simp add: GetTimeout_def ParseDuration_soon)
  from general absent c29 c30 c24 c241 cbad show ?thesis by blast
qed

theorem GetTimeout_label_range_witness:
  "GetTimeout [''zockimate.timeout'' \<mapsto> ''30s''] (30 * Minute) = 30 * Second \<and>
   GetTimeout Map.empty (30 * Minute) = 30 * Minute"
  using GetTimeout_label_range
    [of "[''zockimate.timeout'' \<mapsto> ''30s'']" "''30s''" "30 * Minute"]
    GetTimeout_label_range [of Map.empty "''30s''" "30 * Minute"]
  by simp

section \<open>Properties of the snapshot store\<close>

lemma parse_buggy: "parse_stmt (''SELECT zfs_snapshot FROM container_snapshots WHERE '' @
    ''DELETE FROM container_snapshots WHERE container_name = ?'' @ rest) = None"
  by (simp add: parse_stmt_def strip_prefix_def parse_conds.simps strip_atom_def)

lemma db_Query_buggy:
  "\<exists>err w'. db_Query (''SELECT zfs_snapshot FROM container_snapshots WHERE '' @
      ''DELETE FROM container_snapshots WHERE container_name = ?'' @ rest) args w = (Inl err, w')
     \<and> rows w' = rows w \<and> datasets w' = datasets w \<and> events w' = events w"
  unfolding db_Query_def parse_buggy
  by (cases "fault Store w") (use fault_frame[of Store w] events_frame(1)[of Store w] in auto)

lemma remove_conditions_keeps:
  "remove_conditions opts w = (ca, w0) \<Longrightarrow>
     rows w0 = rows w \<and> datasets w0 = datasets w \<and> events w0 = events w"
  by (cases "Now w")
     (use Now_frame[of w] events_frame(2)[of w] in
        \<open>auto simp: remove_conditions_def split: if_splits prod.splits\<close>)

text \<open>
  C6. The claim: \<open>remove\<close> deletes the container's rows matching the filters and
  returns their count, and with \<open>opts.zfs\<close> it first destroys the dataset snapshots of
  the rows about to be deleted. The code: with \<open>opts.zfs\<close> set, the \<open>SELECT\<close> is built
  by prefixing the complete \<open>DELETE\<close> statement, the store rejects it, and
  \<open>RemoveEntries\<close> returns an error having deleted no row and destroyed no dataset
  snapshot, whatever the filters and the rows are.
\<close>

theorem RemoveEntries_zfs_fails:
  assumes "rm_Zfs opts"
  shows "\<exists>err w'. RemoveEntries containerName opts w = (Inl err, w') \<and>
           rows w' = rows w \<and> datasets w' = datasets w \<and> events w' = events w"
proof -
  obtain conditions extra w0 where rc: "remove_conditions opts w = ((conditions, extra), w0)"
    by (metis surj_pair)
  from remove_conditions_keeps[OF rc]
  have k0: "rows w0 = rows w" "datasets w0 = datasets w" "events w0 = events w" by auto
  obtain err w1 where q: "db_Query (''SELECT zfs_snapshot FROM container_snapshots WHERE '' @
      ''DELETE FROM container_snapshots WHERE container_name = ?'' @
        (if length conditions > 0 then '' AND '' @ Join conditions '' AND '' else []))
      (containerName # extra) w0 = (Inl err, w1)"
    and k1: "rows w1 = rows w0" "datasets w1 = datasets w0" "events w1 = events w0"
    using db_Query_buggy by blast
  have "RemoveEntries containerName opts w = (Inl (Errorf ''failed to query ZFS snapshots: '' err), w1)"
    using assms q by (simp add: RemoveEntries_def rc Let_def)
  with k0 k1 show ?thesis by simp
qed

theorem RemoveEntries_zfs_fails_witness:
  "rm_Zfs remove_all_zfs \<and>
   (\<exists>err w'. RemoveEntries ''web'' remove_all_zfs host3 = (Inl err, w') \<and>
       length (rows w') = 3 \<and> length (datasets w') = 3)"
proof -
  have h: "rm_Zfs remove_all_zfs" by (simp add: remove_all_zfs_def)
  from RemoveEntries_zfs_fails[OF h, of "''web''" host3] obtain err w' where
    "RemoveEntries ''web'' remove_all_zfs host3 = (Inl err, w')"
    "rows w' = rows host3" "datasets w' = datasets host3" by blast
  then show ?thesis using h by (simp add: host3_def)
qed

lemma destroy_best_effort_events:
  "set (events w) \<subseteq> set (events (destroy_best_effort z w))"
  "z = Some s \<Longrightarrow> s \<noteq> [] \<Longrightarrow> ZfsCmd [''destroy'', s] \<in> set (events (destroy_best_effort z w))"
proof -
  have e: "\<And>s r w'. zfs_DeleteSnapshot s w = (r, w') \<Longrightarrow>
             events w' = events w @ [ZfsCmd [''destroy'', s]]"
    using zfs_DeleteSnapshot_events by (metis snd_conv)
  show "set (events w) \<subseteq> set (events (destroy_best_effort z w))"
    by (auto simp: destroy_best_effort_def split: option.splits prod.splits dest!: e)
  show "z = Some s \<Longrightarrow> s \<noteq> [] \<Longrightarrow> ZfsCmd [''destroy'', s] \<in> set (events (destroy_best_effort z w))"
    by (auto simp: destroy_best_effort_def split: option.splits prod.splits dest!: e)
qed

lemma delete_by_id_refused:
  "cursors w > 0 \<Longrightarrow>
     delete_by_id i w = (Some (Plain ''database is locked''), snd (fault Store w))"
  by (simp add: delete_by_id_def write_refused_def split_beta)

lemma cleanup_rows_refused:
  assumes "cursors w > 0"
  shows "cleanup_rows ((i, z) # rest) w =
           (Some (Plain (''failed to delete snapshot '' @ fmt_d i @ '': database is locked'')),
            snd (fault Store (destroy_best_effort z w)))"
proof -
  have "cursors (destroy_best_effort z w) > 0" using assms by simp
  then show ?thesis by (simp add: delete_by_id_refused)
qed

text \<open>
  C5. The claim: \<open>cleanup(name, retain)\<close> deletes the \<open>max (k - retain) 0\<close> oldest rows of
  the container, destroying the dataset snapshot of each. The code: the \<open>DELETE\<close>
  statements are sent from inside the loop over the open result set of the \<open>SELECT\<close>,
  so the store refuses the first of them. \<open>CleanupSnapshots\<close> never deletes a row. When
  the query finds no row past the \<open>retain\<close> most recent, it returns without an error;
  otherwise it destroys the dataset snapshot of the first row found, if it has one, and
  then returns the error of the refused \<open>DELETE\<close>, with that row and all the others
  still in the table.
\<close>

theorem CleanupSnapshots_deletes_nothing:
  "rows (snd (CleanupSnapshots name retain w)) = rows w \<and>
   (\<not> faults w Store (calls w Store) \<longrightarrow>
      (case drop (nat retain) (newest_first (filter (\<lambda>r. container_name r = name) (rows w))) of
         [] \<Rightarrow> fst (CleanupSnapshots name retain w) = None
       | d # rest \<Rightarrow>
           fst (CleanupSnapshots name retain w) =
             Some (Plain (''failed to delete snapshot '' @ fmt_d (row_id d) @
                          '': database is locked'')) \<and>
           (\<forall>s. zfs_snapshot d = Some s \<and> s \<noteq> [] \<longrightarrow>
                ZfsCmd [''destroy'', s] \<in> set (events (snd (CleanupSnapshots name retain w))))))"
proof -
  define old where
    "old = drop (nat retain) (newest_first (filter (\<lambda>r. container_name r = name) (rows w)))"
  define w1 where "w1 = (snd (fault Store w))\<lparr>cursors := Suc (cursors (snd (fault Store w)))\<rparr>"
  have open1: "cursors w1 > 0" by (simp add: w1_def)
  have rows1: "rows w1 = rows w" by (simp add: w1_def)
  have sel: "select_past_offset name retain w =
      (if faults w Store (calls w Store) then (Inl (Plain ''database is locked''), snd (fault Store w))
       else (Inr (map (\<lambda>r. (row_id r, zfs_snapshot r)) old), w1))"
    by (simp add: select_past_offset_def split_beta old_def w1_def)
  have loop_rows: "rows (snd (cleanup_rows xs w1)) = rows w" for xs
  proof (cases xs)
    case Nil
    then show ?thesis by (simp add: rows1)
  next
    case (Cons a rest)
    obtain i z where "a = (i, z)" by (cases a)
    then show ?thesis
      unfolding Cons using cleanup_rows_refused[OF open1, of i z rest] by (simp add: rows1)
  qed
  have part1: "rows (snd (CleanupSnapshots name retain w)) = rows w"
    by (simp add: CleanupSnapshots_def sel split_beta loop_rows)
  have part2: "case old of
         [] \<Rightarrow> fst (CleanupSnapshots name retain w) = None
       | d # rest \<Rightarrow>
           fst (CleanupSnapshots name retain w) =
             Some (Plain (''failed to delete snapshot '' @ fmt_d (row_id d) @
                          '': database is locked'')) \<and>
           (\<forall>s. zfs_snapshot d = Some s \<and> s \<noteq> [] \<longrightarrow>
                ZfsCmd [''destroy'', s] \<in> set (events (snd (CleanupSnapshots name retain w))))"
    if nf: "\<not> faults w Store (calls w Store)"
  proof (cases old)
    case Nil
    then show ?thesis using nf by (simp add: CleanupSnapshots_def sel)
  next
    case (Cons d rest)
    have run: "cleanup_rows (map (\<lambda>r. (row_id r, zfs_snapshot r)) old) w1 =
        (Some (Plain (''failed to delete snapshot '' @ fmt_d (row_id d) @ '': database is locked'')),
         snd (fault Store (destroy_best_effort (zfs_snapshot d) w1)))"
      unfolding Cons using cleanup_rows_refused[OF open1] by simp
    have f: "fst (CleanupSnapshots name retain w) =
        Some (Plain (''failed to delete snapshot '' @ fmt_d (row_id d) @ '': database is locked''))"
      using nf by (simp add: CleanupSnapshots_def sel run)
    have z: "ZfsCmd [''destroy'', s] \<in> set (events (snd (CleanupSnapshots name retain w)))"
      if "zfs_snapshot d = Some s" "s \<noteq> []" for s
      using nf destroy_best_effort_events(2)[OF that, of w1]
      by (simp add: CleanupSnapshots_def sel run)
    show ?thesis unfolding Cons using f z by simp
  qed
  show ?thesis using part1 part2 unfolding old_def by blast
qed

theorem CleanupSnapshots_deletes_nothing_witness:
  "\<not> faults host3 Store (calls host3 Store) \<and>
   (\<exists>err. fst (CleanupSnapshots ''web'' 2 host3) = Some err) \<and>
   map row_id (rows (snd (CleanupSnapshots ''web'' 2 host3))) = [1, 2, 3] \<and>
   datasets (snd (CleanupSnapshots ''web'' 2 host3)) = [''tank/web@snapshot_2'', ''tank/web@snapshot_3'']"
proof -
  have srt: "drop (nat 2) (newest_first (filter (\<lambda>r. container_name r = ''web'') (rows host3))) =
      [web_row 1 digest_ref ''tank/web@snapshot_1'' 1]"
    by (simp add: newest_first_def example_simps less_eq_char_def less_char_def)
  have nf: "\<not> faults host3 Store (calls host3 Store)" by (simp add: example_simps)
  from CleanupSnapshots_deletes_nothing[of "''web''" 2 host3] nf
  have r: "rows (snd (CleanupSnapshots ''web'' 2 host3)) = rows host3"
    and e: "\<exists>err. fst (CleanupSnapshots ''web'' 2 host3) = Some err"
    unfolding srt by auto
  have d: "datasets (snd (CleanupSnapshots ''web'' 2 host3)) =
      [''tank/web@snapshot_2'', ''tank/web@snapshot_3'']"
    by (simp add: CleanupSnapshots_def select_past_offset_def delete_by_id_def
          write_refused_def destroy_best_effort_def zfs_DeleteSnapshot_def zfs_run_def
          close_cursor_def fault_def emit_def newest_first_def example_simps
          less_eq_char_def less_char_def)
  from r have "map row_id (rows (snd (CleanupSnapshots ''web'' 2 host3))) = [1, 2, 3]"
    by (simp add: example_simps)
  with nf e d show ?thesis by blast
qed

section \<open>Properties of the check\<close>

lemma check_report_result:
  "check_report cm name opts currentImage latestImage result w = Ret (result', err) w' \<Longrightarrow>
     result' = result \<and> err = None"
  by (auto simp: check_report_def Let_def split: if_splits sum.splits)

lemma compare_images_digests:
  "RepoDigest cur \<noteq> [] \<Longrightarrow> RepoDigest latest \<noteq> [] \<Longrightarrow> Platform cur = Platform latest \<Longrightarrow>
     compare_images cur latest = Inr (RepoDigest cur \<noteq> RepoDigest latest)"
  by (simp add: compare_images_def IsExactReference_def)

lemma check_body_digests:
  assumes "check_body cm name opts w = Ret (result, err) w'"
    and "cr_CurrentImage result = Some cur" and "cr_UpdateImage result = Some latest"
    and "RepoDigest cur \<noteq> []" and "RepoDigest latest \<noteq> []"
  shows "(err = None \<longrightarrow> cr_NeedsUpdate result = (RepoDigest cur \<noteq> RepoDigest latest)) \<and>
         (RepoDigest cur = RepoDigest latest \<longrightarrow> \<not> cr_NeedsUpdate result)"
  using assms
  unfolding check_body_def Let_def
  by (auto split: prod.splits sum.splits option.splits if_splits
        simp: compare_images_digests dest!: check_report_result)

lemma locked_Ret:
  "locked body w = Ret r w' \<Longrightarrow> \<exists>w1 w2. body w1 = Ret r w2"
  by (auto simp: locked_def split: run.splits)

text \<open>
  C2. Whenever \<open>check\<close> returns a result in which the current image and the freshly
  pulled update-source image both carry a non-empty repo digest, the \<open>needs_update\<close> of a
  successful check equals \<open>current.repo_digest \<noteq> latest.repo_digest\<close>; and when the two
  digests are equal, \<open>needs_update\<close> is false whether or not the check succeeds.
\<close>

theorem CheckContainer_compares_digests:
  assumes "CheckContainer cm name opts w = Ret (result, err) w'"
    and "cr_CurrentImage result = Some cur" and "cr_UpdateImage result = Some latest"
    and "RepoDigest cur \<noteq> []" and "RepoDigest latest \<noteq> []"
  shows "(err = None \<longrightarrow> cr_NeedsUpdate result = (RepoDigest cur \<noteq> RepoDigest latest)) \<and>
         (RepoDigest cur = RepoDigest latest \<longrightarrow> \<not> cr_NeedsUpdate result)"
proof -
  from assms(1) obtain w1 w2 where "check_body cm name opts w1 = Ret (result, err) w2"
    unfolding CheckContainer_def by (blast dest: locked_Ret)
  then show ?thesis using assms(2-5) by (rule check_body_digests)
qed

section \<open>Properties of the rollback\<close>

lemmas push_map_run =
  prod.case_distrib[of "map_run g" for g] option.case_distrib[of "map_run g" for g]
  sum.case_distrib[of "map_run g" for g] if_distrib[of "map_run g" for g]

lemma Config_update_last:
  "rr_Error_update f (rr_ConfigRollback_update g r) = rr_ConfigRollback_update g (rr_Error_update f r)"
  "rr_Success_update h (rr_ConfigRollback_update g r) = rr_ConfigRollback_update g (rr_Success_update h r)"
  "rr_SafetySnapshot_update k (rr_ConfigRollback_update g r) = rr_ConfigRollback_update g (rr_SafetySnapshot_update k r)"
  by simp_all

lemma rollback_recreate_Config:
  "rollback_recreate cm name (opts\<lparr>ro_Config := b\<rparr>) snapshot (result\<lparr>rr_ConfigRollback := b\<rparr>) c h k w =
     map_run (\<lambda>(r, e). (r\<lparr>rr_ConfigRollback := b\<rparr>, e))
       (rollback_recreate cm name opts snapshot result c h k w)"
  by (simp add: rollback_recreate_def Let_def push_map_run Config_update_last
        cong: prod.case_cong option.case_cong sum.case_cong if_cong)

lemma rollback_apply_Config:
  "rollback_apply cm name (opts\<lparr>ro_Config := b\<rparr>) snapshot (result\<lparr>rr_ConfigRollback := b\<rparr>) w =
     map_run (\<lambda>(r, e). (r\<lparr>rr_ConfigRollback := b\<rparr>, e))
       (rollback_apply cm name opts snapshot result w)"
  by (simp add: rollback_apply_def rollback_recreate_Config Let_def push_map_run Config_update_last
        cong: prod.case_cong option.case_cong sum.case_cong if_cong)

lemma rollback_prepare_Config:
  "rollback_prepare cm name (opts\<lparr>ro_Config := b\<rparr>) w =
     map_run (\<lambda>(r, s). (r\<lparr>rr_ConfigRollback := b\<rparr>, s)) (rollback_prepare cm name opts w)"
  by (simp add: rollback_prepare_def Let_def push_map_run run.case_distrib[of "map_run g" for g]
        Config_update_last
        cong: prod.case_cong option.case_cong sum.case_cong run.case_cong if_cong)

lemma rollback_deferred_Config:
  "rollback_deferred restore (result\<lparr>rr_ConfigRollback := b\<rparr>) err w =
     map_option (map_run (\<lambda>(r, e). (r\<lparr>rr_ConfigRollback := b\<rparr>, e)))
       (rollback_deferred restore result err w)"
proof (cases "rr_Error result = None")
  case True
  then show ?thesis
    by (cases "Unlock w") (simp_all add: rollback_deferred_def)
next
  case False
  let ?w3 = "emit (LogError ''Rollback failed, attempting to restore from safety snapshot'') w"
  show ?thesis
  proof (cases "Unlock ?w3")
    case (Fatal p w4)
    then show ?thesis using False by (simp add: rollback_deferred_def)
  next
    case U: (Ret u w4)
    show ?thesis
    proof (cases "restore w4")
      case None
      then show ?thesis using False U by (simp add: rollback_deferred_def)
    next
      case (Some r)
      show ?thesis
      proof (cases r)
        case (Fatal p w5)
        then show ?thesis using False U Some by (simp add: rollback_deferred_def)
      next
        case R: (Ret x w5)
        obtain safetyResult err' where x: "x = (safetyResult, err')" by (cases x)
        show ?thesis
          using False U Some R x
          by (cases "Unlock w5") (simp_all add: rollback_deferred_def)
      qed
    qed
  qed
qed

lemma RecreateContainer_creates:
  "RecreateContainer n c h k w = (None, w') \<Longrightarrow>
     filter is_create (events w') = filter is_create (events w) @ [Created n c h k]"
proof -
  assume a: "RecreateContainer n c h k w = (None, w')"
  have "fst (RecreateContainer n c h k w) = None \<longrightarrow>
        filter is_create (events (snd (RecreateContainer n c h k w))) =
          filter is_create (events w) @ [Created n c h k]"
    by (simp add: RecreateContainer_def split_beta is_create_def
          split: option.splits sum.splits)
  with a show ?thesis by simp
qed

lemma notifyf_creates [simp]:
  "filter is_create (events (notifyf cm t m w)) = filter is_create (events w)"
  by (simp add: notifyf_def split_beta is_create_def)

lemma rollback_recreate_creates:
  "rollback_recreate cm name opts snapshot result c h k w = Ret (r, None) w' \<Longrightarrow>
     \<exists>c'. cfg_Rest c' = cfg_Rest c \<and>
          filter is_create (events w') = filter is_create (events w) @ [Created name c' h k]"
proof -
  assume a: "rollback_recreate cm name opts snapshot result c h k w = Ret (r, None) w'"
  define w1 where "w1 = (if ro_Data opts \<and> cs_ZFSSnapshot snapshot \<noteq> []
      then snd (zfs_RollbackSnapshot (cs_ZFSSnapshot snapshot) w) else w)"
  define c2 where "c2 =
     (if ro_Image opts then
        (if Original (cs_ImageRef snapshot) \<noteq> [] then
           c\<lparr>cfg_Image := BestReference (cs_ImageRef snapshot),
              cfg_Labels := (cfg_Labels c)
                (''zockimate.original_image'' \<mapsto> Original (cs_ImageRef snapshot))\<rparr>
         else c\<lparr>cfg_Image := BestReference (cs_ImageRef snapshot)\<rparr>)
      else c)"
  have e1: "filter is_create (events w1) = filter is_create (events w)"
    by (simp add: w1_def is_create_def)
  have rest: "cfg_Rest c2 = cfg_Rest c" by (simp add: c2_def)
  obtain ro w2 where rc: "RecreateContainer name c2 h k w1 = (ro, w2)" by (cases "RecreateContainer name c2 h k w1")
  obtain wo w3 where wt: "WaitForContainer name (GetTimeout (cfg_Labels c2) (ro_Timeout opts)) w2 = (wo, w3)"
    by (cases "WaitForContainer name (GetTimeout (cfg_Labels c2) (ro_Timeout opts)) w2")
  have e3: "events w3 = events w2" by (metis WaitForContainer_events snd_conv wt)
  from a have ok: "ro = None \<and> wo = None \<and> filter is_create (events w') = filter is_create (events w3)"
    unfolding rollback_recreate_def Let_def
    using rc wt
    by (auto simp: w1_def c2_def split: if_splits option.splits prod.splits sum.splits)
  with rc have "filter is_create (events w2) = filter is_create (events w1) @ [Created name c2 h k]"
    by (auto dest: RecreateContainer_creates)
  with ok e3 e1 rest show ?thesis by auto
qed

lemma rollback_apply_creates:
  assumes "rollback_apply cm name opts snapshot result w = Ret (r, None) w'"
  shows "\<exists>c0 h k c. Unmarshal (cs_Config snapshot) = Inr c0 \<and>
           Unmarshal (cs_HostConfig snapshot) = Inr h \<and>
           Unmarshal (cs_NetworkConfig snapshot) = Inr k \<and> cfg_Rest c = cfg_Rest c0 \<and>
           filter is_create (events w') = filter is_create (events w) @ [Created name c h k]"
proof -
  from assms obtain c0 h k where
    u: "Unmarshal (cs_Config snapshot) = Inr c0" "Unmarshal (cs_HostConfig snapshot) = Inr h"
       "Unmarshal (cs_NetworkConfig snapshot) = Inr k"
    unfolding rollback_apply_def Let_def by (auto split: sum.splits)
  from assms u obtain c1 w1 where
    r: "rollback_recreate cm name opts snapshot result c1 h k w1 = Ret (r, None) w'"
    and c1: "cfg_Rest c1 = cfg_Rest c0"
    and w1: "filter is_create (events w1) = filter is_create (events w)"
    unfolding rollback_apply_def Let_def
    by (auto split: if_splits prod.splits option.splits
          simp: is_create_def dest!: arg_cong[where f = snd, of "PullImage _ _"])
  from rollback_recreate_creates[OF r] c1 w1 u show ?thesis by auto
qed

text \<open>
  C9. \<open>RollbackContainer\<close> ignores the config aspect flag. Setting \<open>opts.Config\<close> to any
  value changes nothing but the \<open>ConfigRollback\<close> field of the reported result: the
  outcome, the returned error and the world left behind are the same. And whatever the
  flag is, a rollback that reaches the end of its body without an error has created the
  container exactly once, from the snapshot's stored host-config and network-config
  blobs and from its stored config blob, of which only the image and the labels are
  touched.
\<close>

theorem RollbackContainer_ignores_Config:
  "RollbackContainer fuel cm name (opts\<lparr>ro_Config := b\<rparr>) w =
     map_option (map_run (\<lambda>(r, e). (r\<lparr>rr_ConfigRollback := b\<rparr>, e)))
       (RollbackContainer fuel cm name opts w) \<and>
   (rollback_apply cm name opts snapshot result w = Ret (r, None) w' \<longrightarrow>
      (\<exists>c0 h k c. Unmarshal (cs_Config snapshot) = Inr c0 \<and>
           Unmarshal (cs_HostConfig snapshot) = Inr h \<and>
           Unmarshal (cs_NetworkConfig snapshot) = Inr k \<and> cfg_Rest c = cfg_Rest c0 \<and>
           filter is_create (events w') = filter is_create (events w) @ [Created name c h k]))"
proof
  show "RollbackContainer fuel cm name (opts\<lparr>ro_Config := b\<rparr>) w =
     map_option (map_run (\<lambda>(r, e). (r\<lparr>rr_ConfigRollback := b\<rparr>, e)))
       (RollbackContainer fuel cm name opts w)"
  proof (cases fuel)
    case 0
    then show ?thesis by simp
  next
    case (Suc n)
    show ?thesis
    proof (cases "rollback_prepare cm name opts w")
      case (Fatal p w1)
      then show ?thesis by (simp add: Suc rollback_prepare_Config)
    next
      case (Ret x w1)
      obtain result0 s where x: "x = (result0, s)" by (cases x)
      show ?thesis
      proof (cases s)
        case None
        then show ?thesis by (simp add: Suc rollback_prepare_Config Ret x)
      next
        case (Some pair)
        obtain snap safety where pair: "pair = (snap, safety)" by (cases pair)
        show ?thesis
        proof (cases "Lock w1")
          case (Fatal p w2)
          then show ?thesis by (simp add: Suc rollback_prepare_Config Ret x Some pair)
        next
          case L: (Ret u w2)
          show ?thesis
          proof (cases "rollback_apply cm (CleanContainerName name) opts snap result0 w2")
            case (Fatal p w3)
            then show ?thesis
              by (simp add: Suc rollback_prepare_Config Ret x Some pair L rollback_apply_Config)
          next
            case A: (Ret y w3)
            obtain result1 err where y: "y = (result1, err)" by (cases y)
            show ?thesis
              by (simp add: Suc rollback_prepare_Config Ret x Some pair L rollback_apply_Config
                    A y rollback_deferred_Config)
          qed
        qed
      qed
    qed
  qed
  show "rollback_apply cm name opts snapshot result w = Ret (r, None) w' \<longrightarrow>
      (\<exists>c0 h k c. Unmarshal (cs_Config snapshot) = Inr c0 \<and>
           Unmarshal (cs_HostConfig snapshot) = Inr h \<and>
           Unmarshal (cs_NetworkConfig snapshot) = Inr k \<and> cfg_Rest c = cfg_Rest c0 \<and>
           filter is_create (events w') = filter is_create (events w) @ [Created name c h k])"
    using rollback_apply_creates by blast
qed

end
